theory Spec2Isabelle
  imports Complex_Main "HOL-Library.Char_ord" "HOL-Library.List_Lexorder" "HOL-Library.Sublist"
begin

section \<open>Order tracking and review handlers\<close>

text \<open>
  A shallow embedding of the two serverless handlers of the repository: the carrier
  webhook handler, which updates an order in \<^verbatim>\<open>data/orders.json\<close>, and the review
  handler (\<^verbatim>\<open>netlify/functions/submit-review.ts\<close>), which appends a review to
  \<^verbatim>\<open>data/reviews.json\<close> and flags the order.

  Conventions of the embedding.
  \<^item> A JSON object whose property may be missing is a record whose field is an
    \<open>option\<close>; \<open>None\<close> is JavaScript's \<open>undefined\<close> (a property that
    \<^verbatim>\<open>JSON.stringify\<close> leaves out and \<^verbatim>\<open>JSON.parse\<close> does not bring back).
  \<^item> A string is the UTF-8 encoding of the JavaScript string, one \<open>char\<close> per byte.
  \<^item> Request payloads have the field types of the TypeScript interfaces
    \<^verbatim>\<open>WebhookPayload\<close> and \<^verbatim>\<open>ReviewRequest\<close>; order records have the fields
    the handlers read and write, and keep whatever else the order-placement system
    stored in the record extension (\<open>'a Order_scheme\<close>).
  \<^item> The Order Store document is a map from its own keys to order records, the
    Review Store a list. A file that cannot be read or parsed is \<open>None\<close>.
  \<^item> \<^verbatim>\<open>orders[key]\<close> is a JavaScript property read: when the document has no such
    key of its own, the read goes on to \<^verbatim>\<open>Object.prototype\<close>. The objects found
    there outlive an invocation; what the webhook handler writes on them is the
    \<open>realm\<close>, which a webhook invocation takes and returns with the two files.
  \<^item> Each handler is a function of its own and runs in a process of its own.
  \<^item> \<^verbatim>\<open>fs.writeFile\<close> replaces the document; the two files are the state that a
    handler takes and returns. A write that the file system refuses is not modelled:
    what it leaves on disk is not determined by the program.
  \<^item> Invocations run one after the other.
  \<^item> The clock and the random generator are inputs of an invocation.
  \<^item> Responses carry the status code and the body; the constant CORS headers are
    left out.
\<close>

subsection \<open>JavaScript values and string operations\<close>

type_synonym timestamp = string

text \<open>Truthiness of a string-valued property: \<open>undefined\<close> and \<open>''\<close> are falsy.\<close>

definition truthy :: "string option \<Rightarrow> bool" where
  "truthy v = (case v of None \<Rightarrow> False | Some s \<Rightarrow> s \<noteq> [])"

text \<open>Truthiness of a number-valued property: \<open>undefined\<close> and \<open>0\<close> are falsy.\<close>

definition truthy_num :: "rat option \<Rightarrow> bool" where
  "truthy_num v = (case v of None \<Rightarrow> False | Some r \<Rightarrow> r \<noteq> 0)"

text \<open>Truthiness of a boolean-valued property.\<close>

definition truthy_bool :: "bool option \<Rightarrow> bool" where
  "truthy_bool v = (case v of None \<Rightarrow> False | Some b \<Rightarrow> b)"

text \<open>\<^verbatim>\<open>a || b\<close> on string-valued properties: the first operand when it is truthy.\<close>

definition js_or :: "string option \<Rightarrow> string option \<Rightarrow> string option" where
  "js_or a b = (if truthy a then a else b)"

text \<open>
  \<^verbatim>\<open>toLowerCase\<close> and \<^verbatim>\<open>toUpperCase\<close> on the letters of ASCII. The handlers
  only compare the lower-cased status with \<^verbatim>\<open>'delivered'\<close>; no character outside
  ASCII lower-cases to one of its letters, so the comparison is the same.
\<close>

definition lower_char :: "char \<Rightarrow> char" where
  "lower_char c =
     (case map_of (zip ''ABCDEFGHIJKLMNOPQRSTUVWXYZ'' ''abcdefghijklmnopqrstuvwxyz'') c of
        None \<Rightarrow> c | Some d \<Rightarrow> d)"

definition upper_char :: "char \<Rightarrow> char" where
  "upper_char c =
     (case map_of (zip ''abcdefghijklmnopqrstuvwxyz'' ''ABCDEFGHIJKLMNOPQRSTUVWXYZ'') c of
        None \<Rightarrow> c | Some d \<Rightarrow> d)"

definition toLowerCase :: "string \<Rightarrow> string" where
  "toLowerCase s = map lower_char s"

definition toUpperCase :: "string \<Rightarrow> string" where
  "toUpperCase s = map upper_char s"

text \<open>\<^verbatim>\<open>s.substring(i, j)\<close> for \<open>i \<le> j\<close>; both ends are clamped to the length.\<close>

definition substring :: "nat \<Rightarrow> nat \<Rightarrow> string \<Rightarrow> string" where
  "substring i j s = take (j - i) (drop i s)"

text \<open>
  \<^verbatim>\<open>String.prototype.trim\<close> removes white space and line terminators at both ends.
  These are the code points U+0009 to U+000D, U+0020, U+00A0, U+1680, U+2000 to U+200A,
  U+2028, U+2029, U+202F, U+205F, U+3000 and U+FEFF, here in UTF-8.
\<close>

definition whiteSpace :: "string list" where
  "whiteSpace =
     [[CHR 0x09], [CHR 0x0A], [CHR 0x0B], [CHR 0x0C], [CHR 0x0D], [CHR 0x20],
      [CHR 0xC2, CHR 0xA0],
      [CHR 0xE1, CHR 0x9A, CHR 0x80],
      [CHR 0xE2, CHR 0x80, CHR 0x80], [CHR 0xE2, CHR 0x80, CHR 0x81],
      [CHR 0xE2, CHR 0x80, CHR 0x82], [CHR 0xE2, CHR 0x80, CHR 0x83],
      [CHR 0xE2, CHR 0x80, CHR 0x84], [CHR 0xE2, CHR 0x80, CHR 0x85],
      [CHR 0xE2, CHR 0x80, CHR 0x86], [CHR 0xE2, CHR 0x80, CHR 0x87],
      [CHR 0xE2, CHR 0x80, CHR 0x88], [CHR 0xE2, CHR 0x80, CHR 0x89],
      [CHR 0xE2, CHR 0x80, CHR 0x8A],
      [CHR 0xE2, CHR 0x80, CHR 0xA8], [CHR 0xE2, CHR 0x80, CHR 0xA9],
      [CHR 0xE2, CHR 0x80, CHR 0xAF],
      [CHR 0xE2, CHR 0x81, CHR 0x9F],
      [CHR 0xE3, CHR 0x80, CHR 0x80],
      [CHR 0xEF, CHR 0xBB, CHR 0xBF]]"

text \<open>Removing, as long as there is one, a leading occurrence of one of the given strings.\<close>

function strip_leading :: "string list \<Rightarrow> string \<Rightarrow> string" where
  "strip_leading ws s =
     (case find (\<lambda>w. w \<noteq> [] \<and> prefix w s) ws of
        None \<Rightarrow> s
      | Some w \<Rightarrow> strip_leading ws (drop (length w) s))"
  by pat_completeness auto
termination
proof (relation "measure (\<lambda>(ws, s). length s)")
  show "wf (measure (\<lambda>(ws, s). length s))" by simp
next
  fix ws :: "string list" and s w :: string
  assume "find (\<lambda>w. w \<noteq> [] \<and> prefix w s) ws = Some w"
  then have "w \<noteq> []" and "prefix w s"
    by (auto simp add: find_Some_iff)
  then have "s \<noteq> []" by auto
  with \<open>w \<noteq> []\<close> show "((ws, drop (length w) s), (ws, s)) \<in> measure (\<lambda>(ws, s). length s)"
    by simp
qed

declare strip_leading.simps [simp del]

definition trimStart :: "string \<Rightarrow> string" where
  "trimStart s = strip_leading whiteSpace s"

definition trimEnd :: "string \<Rightarrow> string" where
  "trimEnd s = rev (strip_leading (map rev whiteSpace) (rev s))"

definition trim :: "string \<Rightarrow> string" where
  "trim s = trimEnd (trimStart s)"

text \<open>The decimal digits of a number, as a template literal prints \<^verbatim>\<open>Date.now()\<close>.\<close>

definition digit :: "nat \<Rightarrow> char" where
  "digit d = ''0123456789'' ! d"

function show_nat :: "nat \<Rightarrow> string" where
  "show_nat n = (if n < 10 then [digit n] else show_nat (n div 10) @ [digit (n mod 10)])"
  by pat_completeness auto
termination
  by (relation "measure (\<lambda>n. n)") auto

subsection \<open>Data model\<close>

record WebhookPayload =
  awb_number :: "string option"
  order_number :: "string option"
  current_status :: "string option"
  previous_status :: "string option"
  updated_at :: "string option"
  delivery_date :: "string option"
  remarks :: "string option"
  location :: "string option"

record ReviewRequest =
  orderId :: "string option"
  rating :: "rat option"
  comment :: "string option"
  imageUrl :: "string option"
  customerName :: "string option"
  productName :: "string option"

record Review =
  id_review :: string
  orderId :: string
  rating :: rat
  comment :: string
  imageUrl :: "string option"
  customerName :: "string option"
  productName :: "string option"
  createdAt :: timestamp
  verified :: bool

record TrackingUpdate =
  status :: "string option"
  previousStatus :: "string option"
  updatedAt :: "string option"
  deliveryDate :: "string option"
  remarks :: "string option"
  location :: "string option"

record Item =
  name :: "string option"

record Order =
  status :: "string option"
  lastUpdated :: "timestamp option"
  trackingUpdates :: "TrackingUpdate list option"
  deliveredAt :: "timestamp option"
  canReview :: "bool option"
  hasReview :: "bool option"
  reviewId :: "string option"
  customerName :: "string option"
  items :: "Item list option"

text \<open>The two JSON documents on disk; \<open>None\<close> is a file that cannot be read or parsed.\<close>

record 'a files =
  orders_file :: "(string \<rightharpoonup> 'a Order_scheme) option"
  reviews_file :: "Review list option"

text \<open>
  The request. \<^verbatim>\<open>JSON.parse(event.body || '{}')\<close> sees \<^verbatim>\<open>'{}'\<close> when there is no
  body, throws on a body that is not JSON, and yields the payload otherwise.
\<close>

datatype 'p body = NoBody | Malformed string | Json 'p

record 'p event =
  httpMethod :: string
  body :: "'p body"

datatype reply =
    Empty
  | Error string
  | WebhookOk string string
  | ReviewOk string Review
  | Failure string string

record response =
  statusCode :: nat
  body :: reply

definition respond :: "nat \<Rightarrow> reply \<Rightarrow> response" where
  "respond c b = \<lparr>statusCode = c, body = b\<rparr>"

definition parse_body :: "'p \<Rightarrow> 'p body \<Rightarrow> string + 'p" where
  "parse_body no_fields b =
     (case b of NoBody \<Rightarrow> Inr no_fields | Malformed msg \<Rightarrow> Inl msg | Json p \<Rightarrow> Inr p)"

definition empty_webhook :: WebhookPayload where
  "empty_webhook =
     \<lparr>awb_number = None, order_number = None, current_status = None,
      previous_status = None, updated_at = None, delivery_date = None,
      WebhookPayload.remarks = None, WebhookPayload.location = None\<rparr>"

definition empty_review_request :: ReviewRequest where
  "empty_review_request =
     \<lparr>ReviewRequest.orderId = None, ReviewRequest.rating = None,
      ReviewRequest.comment = None, ReviewRequest.imageUrl = None,
      ReviewRequest.customerName = None, ReviewRequest.productName = None\<rparr>"

subsection \<open>Objects that outlive an invocation\<close>

text \<open>
  The document that \<^verbatim>\<open>JSON.parse\<close> returns, and the \<^verbatim>\<open>{}\<close> that stands in for it,
  inherit from \<^verbatim>\<open>Object.prototype\<close>. A read \<^verbatim>\<open>orders[key]\<close> of a key that the
  document does not have finds
  \<^item> \<^verbatim>\<open>Object.prototype\<close> itself for the key \<^verbatim>\<open>__proto__\<close>,
  \<^item> a built-in function for each of the other member names of \<^verbatim>\<open>Object.prototype\<close>,
  \<^item> and whatever earlier invocations in the same process have stored on
    \<^verbatim>\<open>Object.prototype\<close>.
  The webhook handler assigns five properties to what it finds; on a host object they
  stay. \<open>PrototypeTracking\<close> is the array that \<^verbatim>\<open>Object.prototype.trackingUpdates\<close>
  holds, as the object that the key \<^verbatim>\<open>trackingUpdates\<close> finds.
\<close>

datatype host = ObjectPrototype | PrototypeMember string | PrototypeTracking

definition prototype_members :: "string list" where
  "prototype_members =
     [''constructor'', ''toString'', ''toLocaleString'', ''valueOf'', ''hasOwnProperty'',
      ''isPrototypeOf'', ''propertyIsEnumerable'', ''__defineGetter__'', ''__defineSetter__'',
      ''__lookupGetter__'', ''__lookupSetter__'']"

text \<open>
  The own properties that the webhook handler can give a host object. An array has
  an identity: \<open>own_trackingUpdates\<close> names the array, and the arrays of the realm are
  named after the host object for which \<^verbatim>\<open>[]\<close> created them.
\<close>

record HostObject =
  own_status :: "string option"
  own_lastUpdated :: "timestamp option"
  own_trackingUpdates :: "host option"
  own_deliveredAt :: "timestamp option"
  own_canReview :: "bool option"

record realm =
  hosts :: "host \<Rightarrow> HostObject"
  arrays :: "host \<Rightarrow> TrackingUpdate list"

definition no_properties :: HostObject where
  "no_properties =
     \<lparr>own_status = None, own_lastUpdated = None, own_trackingUpdates = None,
      own_deliveredAt = None, own_canReview = None\<rparr>"

text \<open>The realm of a process that has just started.\<close>

definition pristine :: realm where
  "pristine = \<lparr>hosts = (\<lambda>h. no_properties), arrays = (\<lambda>h. [])\<rparr>"

text \<open>What \<^verbatim>\<open>orders[key]\<close> evaluates to; a falsy value counts as missing.\<close>

datatype 'a found =
    OwnOrder "'a Order_scheme"
  | Inherited host
  | TruthyPrimitive
  | Missing

definition lookup_order :: "realm \<Rightarrow> (string \<rightharpoonup> 'a Order_scheme) \<Rightarrow> string \<Rightarrow> 'a found" where
  "lookup_order rl orders k =
     (case orders k of
        Some ord \<Rightarrow> OwnOrder ord
      | None \<Rightarrow>
          if k = ''__proto__'' then Inherited ObjectPrototype
          else if k \<in> set prototype_members then Inherited (PrototypeMember k)
          else if k = ''status''
            then (if truthy (own_status (hosts rl ObjectPrototype)) then TruthyPrimitive else Missing)
          else if k = ''lastUpdated''
            then (if truthy (own_lastUpdated (hosts rl ObjectPrototype)) then TruthyPrimitive
                  else Missing)
          else if k = ''deliveredAt''
            then (if truthy (own_deliveredAt (hosts rl ObjectPrototype)) then TruthyPrimitive
                  else Missing)
          else if k = ''canReview''
            then (if truthy_bool (own_canReview (hosts rl ObjectPrototype)) then TruthyPrimitive
                  else Missing)
          else if k = ''trackingUpdates''
            then (case own_trackingUpdates (hosts rl ObjectPrototype) of
                    None \<Rightarrow> Missing | Some a \<Rightarrow> Inherited PrototypeTracking)
          else Missing)"

text \<open>
  \<^verbatim>\<open>x.trackingUpdates\<close> for an object \<open>x\<close> other than \<^verbatim>\<open>Object.prototype\<close>
  that has no such property of its own: the array of \<^verbatim>\<open>Object.prototype\<close>, if any.
\<close>

definition inherited_tracking :: "realm \<Rightarrow> host option" where
  "inherited_tracking rl = own_trackingUpdates (hosts rl ObjectPrototype)"

text \<open>
  The array that an order's \<open>trackingUpdates\<close> refers to while the handler runs: an
  array of this invocation (parsed from the document, or a new \<^verbatim>\<open>[]\<close>), or an array
  of the realm.
\<close>

datatype tracking_value = Parsed "TrackingUpdate list" | Shared host

definition read_tracking :: "realm \<Rightarrow> tracking_value option \<Rightarrow> tracking_value option" where
  "read_tracking rl own =
     (case own of Some v \<Rightarrow> Some v | None \<Rightarrow> map_option Shared (inherited_tracking rl))"

text \<open>\<^verbatim>\<open>x.trackingUpdates.push(entry)\<close>; on \<open>undefined\<close> it throws a TypeError.\<close>

definition push ::
  "realm \<Rightarrow> tracking_value option \<Rightarrow> TrackingUpdate \<Rightarrow> string + (tracking_value \<times> realm)" where
  "push rl v entry =
     (case v of
        None \<Rightarrow> Inl ''Cannot read properties of undefined (reading push)''
      | Some (Parsed us) \<Rightarrow> Inr (Parsed (us @ [entry]), rl)
      | Some (Shared a) \<Rightarrow>
          Inr (Shared a, rl\<lparr>arrays := (arrays rl)(a := arrays rl a @ [entry])\<rparr>))"

text \<open>The elements that \<^verbatim>\<open>JSON.stringify\<close> writes for the array.\<close>

definition elements :: "realm \<Rightarrow> tracking_value \<Rightarrow> TrackingUpdate list" where
  "elements rl v = (case v of Parsed us \<Rightarrow> us | Shared a \<Rightarrow> arrays rl a)"

subsection \<open>The webhook handler\<close>

text \<open>
  The readings of one webhook invocation: \<^verbatim>\<open>new Date().toISOString()\<close> for
  \<open>lastUpdated\<close>, and again for \<open>deliveredAt\<close>. The handler is module code, which
  is strict; \<open>strict_mode\<close> is false for a build that runs it as a sloppy script, where
  an assignment to a property of a string or a boolean is ignored instead of throwing.
\<close>

record webhook_env =
  now_lastUpdated :: timestamp
  now_deliveredAt :: timestamp
  strict_mode :: bool

text \<open>The entry pushed on \<open>trackingUpdates\<close>, built from the event's fields.\<close>

definition tracking_entry :: "WebhookPayload \<Rightarrow> TrackingUpdate" where
  "tracking_entry webhookData =
     \<lparr>TrackingUpdate.status = current_status webhookData,
      previousStatus = previous_status webhookData,
      updatedAt = updated_at webhookData,
      deliveryDate = delivery_date webhookData,
      TrackingUpdate.remarks = WebhookPayload.remarks webhookData,
      TrackingUpdate.location = WebhookPayload.location webhookData\<rparr>"

text \<open>\<^verbatim>\<open>webhookData.delivery_date || new Date().toISOString()\<close>.\<close>

definition delivered_stamp :: "webhook_env \<Rightarrow> WebhookPayload \<Rightarrow> timestamp option" where
  "delivered_stamp env webhookData =
     js_or (delivery_date webhookData) (Some (now_deliveredAt env))"

text \<open>
  The mutation of an order of the document, in the order of the source's statements:
  \<open>status\<close>, \<open>lastUpdated\<close>, \<^verbatim>\<open>order.trackingUpdates = order.trackingUpdates || []\<close>,
  the push, and the two assignments for a delivered status. The read of
  \<open>trackingUpdates\<close> finds the order's own array or the one of \<^verbatim>\<open>Object.prototype\<close>;
  the order is returned as \<^verbatim>\<open>JSON.stringify\<close> writes it.
\<close>

definition update_order ::
  "webhook_env \<Rightarrow> WebhookPayload \<Rightarrow> realm \<Rightarrow> 'a Order_scheme
     \<Rightarrow> string + ('a Order_scheme \<times> realm)" where
  "update_order env webhookData rl ord =
     (let o1 = ord\<lparr>Order.status := current_status webhookData\<rparr>;
          o2 = o1\<lparr>lastUpdated := Some (now_lastUpdated env)\<rparr>;
          own = map_option Parsed (trackingUpdates o2);
          own' = Some (case read_tracking rl own of None \<Rightarrow> Parsed [] | Some v \<Rightarrow> v)
      in (case push rl (read_tracking rl own') (tracking_entry webhookData) of
            Inl msg \<Rightarrow> Inl msg
          | Inr (v, rl') \<Rightarrow>
              let o4 = o2\<lparr>trackingUpdates := Some (elements rl' v)\<rparr>
              in Inr (if map_option toLowerCase (current_status webhookData) = Some ''delivered''
                      then o4\<lparr>deliveredAt := delivered_stamp env webhookData,
                             canReview := Some True\<rparr>
                      else o4,
                      rl')))"

text \<open>The order and the realm that the mutation leaves.\<close>

definition order_after ::
  "webhook_env \<Rightarrow> WebhookPayload \<Rightarrow> realm \<Rightarrow> 'a Order_scheme \<Rightarrow> 'a Order_scheme" where
  "order_after env webhookData rl ord =
     (case update_order env webhookData rl ord of Inl msg \<Rightarrow> ord | Inr (ord', rl') \<Rightarrow> ord')"

definition realm_after ::
  "webhook_env \<Rightarrow> WebhookPayload \<Rightarrow> realm \<Rightarrow> 'a Order_scheme \<Rightarrow> realm" where
  "realm_after env webhookData rl ord =
     (case update_order env webhookData rl ord of Inl msg \<Rightarrow> rl | Inr (ord', rl') \<Rightarrow> rl')"

text \<open>
  The same statements on a host object. Its properties stay in the realm; a new
  \<^verbatim>\<open>[]\<close> becomes an array of the realm, named after the host object.
\<close>

definition update_host ::
  "webhook_env \<Rightarrow> WebhookPayload \<Rightarrow> realm \<Rightarrow> host \<Rightarrow> string + realm" where
  "update_host env webhookData rl h =
     (let h1 = (hosts rl h)\<lparr>own_status := current_status webhookData\<rparr>;
          h2 = h1\<lparr>own_lastUpdated := Some (now_lastUpdated env)\<rparr>;
          found = (case own_trackingUpdates h2 of
                     Some a \<Rightarrow> Some a
                   | None \<Rightarrow> if h = ObjectPrototype then None else inherited_tracking rl);
          arrays1 = (case found of None \<Rightarrow> (arrays rl)(h := []) | Some a \<Rightarrow> arrays rl);
          h3 = h2\<lparr>own_trackingUpdates := Some (case found of None \<Rightarrow> h | Some a \<Rightarrow> a)\<rparr>
      in (case own_trackingUpdates h3 of
            None \<Rightarrow> Inl ''Cannot read properties of undefined (reading push)''
          | Some a \<Rightarrow>
              let arrays2 = arrays1(a := arrays1 a @ [tracking_entry webhookData]);
                  h5 = (if map_option toLowerCase (current_status webhookData) = Some ''delivered''
                        then h3\<lparr>own_deliveredAt := delivered_stamp env webhookData,
                               own_canReview := Some True\<rparr>
                        else h3)
              in Inr (rl\<lparr>hosts := (hosts rl)(h := h5), arrays := arrays2\<rparr>)))"

text \<open>
  The statements on a truthy string or boolean found on \<^verbatim>\<open>Object.prototype\<close>. Strict
  code throws at the first assignment. Sloppy code ignores the assignments, and the
  push goes to the array that the value inherits.
\<close>

definition update_primitive ::
  "webhook_env \<Rightarrow> WebhookPayload \<Rightarrow> realm \<Rightarrow> string + realm" where
  "update_primitive env webhookData rl =
     (if strict_mode env then Inl ''Cannot create property status''
      else (case push rl (read_tracking rl None) (tracking_entry webhookData) of
              Inl msg \<Rightarrow> Inl msg
            | Inr (v, rl') \<Rightarrow> Inr rl'))"

definition webhook_handler ::
  "webhook_env \<Rightarrow> WebhookPayload event \<Rightarrow> realm \<Rightarrow> 'a files
     \<Rightarrow> response \<times> realm \<times> 'a files" where
  "webhook_handler env ev rl fs =
     (if httpMethod ev = ''OPTIONS'' then (respond 200 Empty, rl, fs)
      else if httpMethod ev \<noteq> ''POST''
        then (respond 405 (Error ''Method not allowed''), rl, fs)
      else (case parse_body empty_webhook (event.body ev) of
        Inl msg \<Rightarrow> (respond 500 (Failure ''Failed to process webhook'' msg), rl, fs)
      | Inr webhookData \<Rightarrow>
          if \<not> truthy (order_number webhookData) \<or> \<not> truthy (current_status webhookData)
          then (respond 400 (Error ''Missing required webhook data''), rl, fs)
          else (case orders_file fs of
            None \<Rightarrow> (respond 404 (Error ''Orders file not found''), rl, fs)
          | Some orders \<Rightarrow>
              let orderNumber = (case order_number webhookData of None \<Rightarrow> [] | Some n \<Rightarrow> n);
                  new_status = (case current_status webhookData of None \<Rightarrow> [] | Some st \<Rightarrow> st)
              in (case lookup_order rl orders orderNumber of
                Missing \<Rightarrow> (respond 404 (Error ''Order not found''), rl, fs)
              | OwnOrder ord \<Rightarrow>
                  (case update_order env webhookData rl ord of
                     Inl msg \<Rightarrow>
                       (respond 500 (Failure ''Failed to process webhook'' msg), rl, fs)
                   | Inr (ord', rl') \<Rightarrow>
                       (respond 200 (WebhookOk orderNumber new_status), rl',
                        fs\<lparr>orders_file := Some (orders(orderNumber \<mapsto> ord'))\<rparr>))
              | Inherited h \<Rightarrow>
                  (case update_host env webhookData rl h of
                     Inl msg \<Rightarrow>
                       (respond 500 (Failure ''Failed to process webhook'' msg), rl, fs)
                   | Inr rl' \<Rightarrow>
                       (respond 200 (WebhookOk orderNumber new_status), rl',
                        fs\<lparr>orders_file := Some orders\<rparr>))
              | TruthyPrimitive \<Rightarrow>
                  (case update_primitive env webhookData rl of
                     Inl msg \<Rightarrow>
                       (respond 500 (Failure ''Failed to process webhook'' msg), rl, fs)
                   | Inr rl' \<Rightarrow>
                       (respond 200 (WebhookOk orderNumber new_status), rl',
                        fs\<lparr>orders_file := Some orders\<rparr>))))))"

subsection \<open>The review handler\<close>

text \<open>
  The readings of one review invocation: \<^verbatim>\<open>Date.now()\<close>,
  \<^verbatim>\<open>Math.random().toString(36)\<close> and \<^verbatim>\<open>new Date().toISOString()\<close>.
\<close>

record review_env =
  date_now :: nat
  random_base36 :: string
  now_createdAt :: timestamp

definition make_review_id :: "review_env \<Rightarrow> string" where
  "make_review_id env =
     ''REV'' @ show_nat (date_now env) @ toUpperCase (substring 2 8 (random_base36 env))"

text \<open>\<^verbatim>\<open>order.items && order.items[0]?.name\<close>.\<close>

definition first_item_name :: "'a Order_scheme \<Rightarrow> string option" where
  "first_item_name ord =
     (case items ord of None \<Rightarrow> None | Some [] \<Rightarrow> None | Some (it # _) \<Rightarrow> name it)"

definition make_review ::
  "review_env \<Rightarrow> ReviewRequest \<Rightarrow> 'a Order_scheme \<Rightarrow> Review" where
  "make_review env reviewData ord =
     \<lparr>id_review = make_review_id env,
      Review.orderId = (case ReviewRequest.orderId reviewData of None \<Rightarrow> [] | Some i \<Rightarrow> i),
      Review.rating = (case ReviewRequest.rating reviewData of None \<Rightarrow> 0 | Some r \<Rightarrow> r),
      Review.comment = trim (case ReviewRequest.comment reviewData of None \<Rightarrow> [] | Some c \<Rightarrow> c),
      Review.imageUrl = js_or (ReviewRequest.imageUrl reviewData) None,
      Review.customerName =
        js_or (ReviewRequest.customerName reviewData)
          (js_or (Order.customerName ord) (Some ''Anonymous'')),
      Review.productName =
        js_or (ReviewRequest.productName reviewData)
          (js_or (first_item_name ord) (Some ''Product'')),
      createdAt = now_createdAt env,
      verified = True\<rparr>"

text \<open>The eligibility test: \<^verbatim>\<open>order.canReview\<close> or a status that lower-cases to \<^verbatim>\<open>'delivered'\<close>.\<close>

definition eligible :: "'a Order_scheme \<Rightarrow> bool" where
  "eligible ord =
     (truthy_bool (canReview ord) \<or> map_option toLowerCase (Order.status ord) = Some ''delivered'')"

text \<open>
  The review handler's two loads. Both \<^verbatim>\<open>catch\<close> blocks continue: with \<^verbatim>\<open>{}\<close>
  for the orders (no key of its own, the inherited members are still found), with
  \<^verbatim>\<open>[]\<close> for the reviews.
\<close>

definition load_orders :: "'a files \<Rightarrow> (string \<rightharpoonup> 'a Order_scheme)" where
  "load_orders fs = (case orders_file fs of None \<Rightarrow> Map.empty | Some orders \<Rightarrow> orders)"

definition load_reviews :: "'a files \<Rightarrow> Review list" where
  "load_reviews fs = (case reviews_file fs of None \<Rightarrow> [] | Some reviews \<Rightarrow> reviews)"

text \<open>
  The review handler runs in a process of its own, and on a host object or a primitive
  it returns at the eligibility check, before any assignment: its realm stays the
  pristine one. There a host object has neither \<open>canReview\<close> nor \<open>status\<close>, so the
  check refuses it; an order of the document reads its own properties.
\<close>

definition review_handler ::
  "review_env \<Rightarrow> ReviewRequest event \<Rightarrow> 'a files \<Rightarrow> response \<times> 'a files" where
  "review_handler env ev fs =
     (if httpMethod ev = ''OPTIONS'' then (respond 200 Empty, fs)
      else if httpMethod ev \<noteq> ''POST'' then (respond 405 (Error ''Method not allowed''), fs)
      else (case parse_body empty_review_request (event.body ev) of
        Inl msg \<Rightarrow> (respond 500 (Failure ''Failed to submit review'' msg), fs)
      | Inr reviewData \<Rightarrow>
          if \<not> truthy (ReviewRequest.orderId reviewData)
             \<or> \<not> truthy_num (ReviewRequest.rating reviewData)
             \<or> \<not> truthy (ReviewRequest.comment reviewData)
          then (respond 400 (Error ''Missing required fields: orderId, rating, comment''), fs)
          else
            let rating = (case ReviewRequest.rating reviewData of None \<Rightarrow> 0 | Some r \<Rightarrow> r);
                oid = (case ReviewRequest.orderId reviewData of None \<Rightarrow> [] | Some i \<Rightarrow> i)
            in if rating < 1 \<or> rating > 5
               then (respond 400 (Error ''Rating must be between 1 and 5''), fs)
               else
                 let orders = load_orders fs
                 in (case lookup_order pristine orders oid of
                   Missing \<Rightarrow> (respond 404 (Error ''Order not found''), fs)
                 | TruthyPrimitive \<Rightarrow>
                     (respond 400 (Error ''Can only review delivered orders''), fs)
                 | Inherited h \<Rightarrow>
                     (respond 400 (Error ''Can only review delivered orders''), fs)
                 | OwnOrder ord \<Rightarrow>
                     if \<not> eligible ord
                     then (respond 400 (Error ''Can only review delivered orders''), fs)
                     else
                       let review = make_review env reviewData ord;
                           reviews = load_reviews fs
                       in (case find (\<lambda>r. Review.orderId r = oid) reviews of
                         Some existingReview \<Rightarrow>
                           (respond 400 (Error ''Review already exists for this order''), fs)
                       | None \<Rightarrow>
                           let fs1 = fs\<lparr>reviews_file := Some (reviews @ [review])\<rparr>;
                               orders' = orders(oid \<mapsto>
                                 ord\<lparr>hasReview := Some True,
                                     reviewId := Some (id_review review)\<rparr>)
                           in (respond 200 (ReviewOk (id_review review) review),
                               fs1\<lparr>orders_file := Some orders'\<rparr>)))))"

subsection \<open>Observations of the stores\<close>

text \<open>The record that the persisted Order Store holds under a key.\<close>

definition stored_order :: "'a files \<Rightarrow> string \<Rightarrow> 'a Order_scheme option" where
  "stored_order fs k = (case orders_file fs of None \<Rightarrow> None | Some orders \<Rightarrow> orders k)"

text \<open>At most one review per \<open>orderId\<close> in the Review Store.\<close>

definition one_review_per_order :: "'a files \<Rightarrow> bool" where
  "one_review_per_order fs = distinct (map Review.orderId (load_reviews fs))"

text \<open>
  The states of the two files that invocations of the handlers lead to from \<open>fs0\<close>,
  whatever the realm of the webhook process is at each invocation.
\<close>

inductive reachable :: "'a files \<Rightarrow> 'a files \<Rightarrow> bool" for fs0 :: "'a files" where
  start: "reachable fs0 fs0"
| review: "reachable fs0 fs \<Longrightarrow> reachable fs0 (snd (review_handler env ev fs))"
| webhook: "reachable fs0 fs \<Longrightarrow> reachable fs0 (snd (snd (webhook_handler wenv wev rl fs)))"


subsection \<open>Example requests and stores\<close>

definition post :: "'p \<Rightarrow> 'p event" where
  "post p = \<lparr>httpMethod = ''POST'', event.body = Json p\<rparr>"

definition ex_order :: Order where
  "ex_order =
     \<lparr>Order.status = Some ''shipped'', lastUpdated = None, trackingUpdates = None,
      deliveredAt = None, canReview = None, hasReview = None, reviewId = None,
      Order.customerName = Some ''Asha'', items = Some [\<lparr>name = Some ''Mug''\<rparr>]\<rparr>"

definition ex_shipped_entry :: TrackingUpdate where
  "ex_shipped_entry =
     \<lparr>TrackingUpdate.status = Some ''shipped'', previousStatus = Some ''packed'',
      updatedAt = Some ''2024-01-10T09:00:00.000Z'', deliveryDate = None,
      TrackingUpdate.remarks = None, TrackingUpdate.location = Some ''Pune''\<rparr>"

definition ex_order_tracked :: Order where
  "ex_order_tracked =
     \<lparr>Order.status = Some ''shipped'', lastUpdated = Some ''2024-01-10T09:00:01.000Z'',
      trackingUpdates = Some [ex_shipped_entry],
      deliveredAt = None, canReview = None, hasReview = None, reviewId = None,
      Order.customerName = None, items = None\<rparr>"

definition ex_files :: "unit files" where
  "ex_files =
     \<lparr>orders_file = Some [''ORD123'' \<mapsto> ex_order, ''ORD456'' \<mapsto> ex_order_tracked],
      reviews_file = None\<rparr>"

definition ex_files_unreadable :: "unit files" where
  "ex_files_unreadable = \<lparr>orders_file = None, reviews_file = None\<rparr>"

definition ex_delivered :: WebhookPayload where
  "ex_delivered =
     \<lparr>awb_number = None, order_number = Some ''ORD123'', current_status = Some ''Delivered'',
      previous_status = None, updated_at = None, delivery_date = Some ''2024-01-15'',
      WebhookPayload.remarks = None, WebhookPayload.location = None\<rparr>"

definition ex_delivered_earlier :: WebhookPayload where
  "ex_delivered_earlier =
     \<lparr>awb_number = None, order_number = Some ''ORD123'', current_status = Some ''DELIVERED'',
      previous_status = None, updated_at = None, delivery_date = Some ''2024-01-01'',
      WebhookPayload.remarks = None, WebhookPayload.location = None\<rparr>"

definition ex_transit :: WebhookPayload where
  "ex_transit =
     \<lparr>awb_number = Some ''AWB9'', order_number = Some ''ORD456'',
      current_status = Some ''in_transit'', previous_status = Some ''shipped'',
      updated_at = Some ''2024-01-12T07:30:00.000Z'', delivery_date = None,
      WebhookPayload.remarks = None, WebhookPayload.location = Some ''Mumbai''\<rparr>"

definition ex_unknown :: WebhookPayload where
  "ex_unknown =
     \<lparr>awb_number = None, order_number = Some ''ORD999'', current_status = Some ''shipped'',
      previous_status = None, updated_at = None, delivery_date = None,
      WebhookPayload.remarks = None, WebhookPayload.location = None\<rparr>"

definition ex_webhook_env :: webhook_env where
  "ex_webhook_env =
     \<lparr>now_lastUpdated = ''2024-01-16T08:00:00.000Z'',
      now_deliveredAt = ''2024-01-16T08:00:00.001Z'', strict_mode = True\<rparr>"

definition ex_webhook_env_later :: webhook_env where
  "ex_webhook_env_later =
     \<lparr>now_lastUpdated = ''2024-01-17T08:00:00.000Z'',
      now_deliveredAt = ''2024-01-17T08:00:00.001Z'', strict_mode = True\<rparr>"

text \<open>The stores after the delivery of \<open>ORD123\<close>, and after a second delivery event.\<close>

definition ex_files_delivered :: "unit files" where
  "ex_files_delivered =
     snd (snd (webhook_handler ex_webhook_env (post ex_delivered) pristine ex_files))"

definition ex_files_delivered_again :: "unit files" where
  "ex_files_delivered_again =
     snd (snd (webhook_handler ex_webhook_env_later (post ex_delivered_earlier) pristine
       ex_files_delivered))"

definition ex_review_env :: review_env where
  "ex_review_env =
     \<lparr>date_now = 1705500000000, random_base36 = ''0.k3j9x2abc'',
      now_createdAt = ''2024-01-17T14:00:00.000Z''\<rparr>"

definition ex_review_request :: ReviewRequest where
  "ex_review_request =
     \<lparr>ReviewRequest.orderId = Some ''ORD123'', ReviewRequest.rating = Some 5,
      ReviewRequest.comment = Some ''  Great  '', ReviewRequest.imageUrl = None,
      ReviewRequest.customerName = None, ReviewRequest.productName = None\<rparr>"

definition ex_review_half :: ReviewRequest where
  "ex_review_half = ex_review_request\<lparr>ReviewRequest.rating := Some (5 / 2)\<rparr>"

definition ex_review_six :: ReviewRequest where
  "ex_review_six = ex_review_request\<lparr>ReviewRequest.rating := Some 6\<rparr>"

definition ex_review_undelivered :: ReviewRequest where
  "ex_review_undelivered = ex_review_request\<lparr>ReviewRequest.orderId := Some ''ORD456''\<rparr>"

text \<open>The stores after the review of \<open>ORD123\<close>.\<close>

definition ex_files_reviewed :: "unit files" where
  "ex_files_reviewed =
     snd (review_handler ex_review_env (post ex_review_request) ex_files_delivered)"

definition ex_delivered_undated :: WebhookPayload where
  "ex_delivered_undated = ex_delivered\<lparr>delivery_date := None\<rparr>"

definition ex_delivered_blank :: WebhookPayload where
  "ex_delivered_blank = ex_delivered\<lparr>delivery_date := Some ''''\<rparr>"

text \<open>
  Events whose order reference is a member name of \<^verbatim>\<open>Object.prototype\<close>, and the
  realm of the webhook process after the first of them.
\<close>

definition ex_proto :: WebhookPayload where
  "ex_proto =
     \<lparr>awb_number = None, order_number = Some ''__proto__'', current_status = Some ''shipped'',
      previous_status = None, updated_at = None, delivery_date = None,
      WebhookPayload.remarks = None, WebhookPayload.location = None\<rparr>"

definition ex_realm_polluted :: realm where
  "ex_realm_polluted =
     fst (snd (webhook_handler ex_webhook_env (post ex_proto) pristine ex_files))"

definition ex_review_toString :: ReviewRequest where
  "ex_review_toString = ex_review_request\<lparr>ReviewRequest.orderId := Some ''toString''\<rparr>"



section \<open>Properties of the handlers\<close>

subsection \<open>How the handlers branch\<close>

lemma empty_webhook_required [simp]:
  "order_number empty_webhook = None" "current_status empty_webhook = None"
  by (simp_all add: empty_webhook_def)

lemma empty_review_request_required [simp]:
  "ReviewRequest.orderId empty_review_request = None"
  "ReviewRequest.rating empty_review_request = None"
  "ReviewRequest.comment empty_review_request = None"
  by (simp_all add: empty_review_request_def)

lemma lookup_order_own:
  "orders k = Some ord \<Longrightarrow> lookup_order rl orders k = OwnOrder ord"
  by (simp add: lookup_order_def)

lemma lookup_order_OwnOrder_iff:
  "lookup_order rl orders k = OwnOrder ord \<longleftrightarrow> orders k = Some ord"
  by (auto simp add: lookup_order_def split: option.splits)

lemma update_order_succeeds:
  "update_order env wd rl ord = Inr (order_after env wd rl ord, realm_after env wd rl ord)"
  by (auto simp add: update_order_def order_after_def realm_after_def Let_def push_def
        read_tracking_def split: option.splits tracking_value.splits)

lemma order_after_tracking:
  "trackingUpdates (order_after env wd rl ord) =
     Some ((case trackingUpdates ord of
              Some us \<Rightarrow> us
            | None \<Rightarrow> (case inherited_tracking rl of None \<Rightarrow> [] | Some a \<Rightarrow> arrays rl a))
           @ [tracking_entry wd])"
  by (auto simp add: update_order_def order_after_def Let_def push_def read_tracking_def
        elements_def split: option.splits)

lemma realm_after_cases:
  "realm_after env wd rl ord =
     (case trackingUpdates ord of
        Some us \<Rightarrow> rl
      | None \<Rightarrow> (case inherited_tracking rl of
                   None \<Rightarrow> rl
                 | Some a \<Rightarrow> rl\<lparr>arrays := (arrays rl)(a := arrays rl a @ [tracking_entry wd])\<rparr>))"
  by (auto simp add: update_order_def realm_after_def Let_def push_def read_tracking_def
        split: option.splits)

lemma order_after_delivered:
  assumes "map_option toLowerCase (current_status wd) = Some ''delivered''"
  shows "deliveredAt (order_after env wd rl ord) = delivered_stamp env wd"
    and "canReview (order_after env wd rl ord) = Some True"
  using assms
  by (auto simp add: update_order_def order_after_def Let_def push_def read_tracking_def
        split: option.splits)


lemma stored_order_after_update:
  "stored_order (fs\<lparr>orders_file := Some (orders(n \<mapsto> v))\<rparr>) k = (if k = n then Some v else orders k)"
  by (simp add: stored_order_def)

lemma webhook_handler_found:
  assumes "httpMethod ev = ''POST''" and "event.body ev = Json wd"
    and "order_number wd = Some n" and "n \<noteq> []"
    and "current_status wd = Some st" and "st \<noteq> []"
    and "orders_file fs = Some orders" and "orders n = Some ord"
  shows "webhook_handler env ev rl fs =
           (respond 200 (WebhookOk n st), realm_after env wd rl ord,
            fs\<lparr>orders_file := Some (orders(n \<mapsto> order_after env wd rl ord))\<rparr>)"
  using assms
  by (simp add: webhook_handler_def parse_body_def truthy_def lookup_order_own
        update_order_succeeds)

lemma webhook_handler_error:
  assumes "statusCode (fst (webhook_handler env ev rl fs)) \<noteq> 200"
  shows "snd (webhook_handler env ev rl fs) = (rl, fs)"
  using assms
  by (auto simp add: webhook_handler_def parse_body_def truthy_def respond_def Let_def
      split: if_splits sum.splits option.splits body.splits found.splits)

lemma webhook_handler_reviews:
  "reviews_file (snd (snd (webhook_handler env ev rl fs))) = reviews_file fs"
  by (auto simp add: webhook_handler_def parse_body_def Let_def
      split: if_splits sum.splits option.splits body.splits found.splits)

lemma review_handler_found:
  assumes "httpMethod ev = ''POST''" and "event.body ev = Json rd"
    and "ReviewRequest.orderId rd = Some oid" and "oid \<noteq> []"
    and "ReviewRequest.rating rd = Some r" and "1 \<le> r" and "r \<le> 5"
    and "ReviewRequest.comment rd = Some c" and "c \<noteq> []"
    and "stored_order fs oid = Some ord"
  shows "review_handler env ev fs =
     (if \<not> eligible ord then (respond 400 (Error ''Can only review delivered orders''), fs)
      else case find (\<lambda>x. Review.orderId x = oid) (load_reviews fs) of
        Some e \<Rightarrow> (respond 400 (Error ''Review already exists for this order''), fs)
      | None \<Rightarrow>
         (respond 200 (ReviewOk (make_review_id env) (make_review env rd ord)),
          fs\<lparr>reviews_file := Some (load_reviews fs @ [make_review env rd ord]),
              orders_file := Some ((load_orders fs)
                 (oid \<mapsto> ord\<lparr>hasReview := Some True, reviewId := Some (make_review_id env)\<rparr>))\<rparr>))"
proof -
  from assms(10) have "lookup_order pristine (load_orders fs) oid = OwnOrder ord"
    by (auto simp add: stored_order_def load_orders_def lookup_order_own split: option.splits)
  with assms show ?thesis
    by (auto simp add: review_handler_def parse_body_def truthy_def truthy_num_def Let_def
          make_review_def split: option.splits)
qed

lemma review_handler_200:
  assumes "review_handler env ev fs = (rsp, fs')" and "statusCode rsp = 200"
  shows "(httpMethod ev = ''OPTIONS'' \<and> fs' = fs \<and> rsp = respond 200 Empty) \<or>
    (\<exists>rd oid r c ord. httpMethod ev = ''POST'' \<and> event.body ev = Json rd
        \<and> ReviewRequest.orderId rd = Some oid \<and> oid \<noteq> []
        \<and> ReviewRequest.rating rd = Some r \<and> 1 \<le> r \<and> r \<le> 5
        \<and> ReviewRequest.comment rd = Some c \<and> c \<noteq> []
        \<and> stored_order fs oid = Some ord \<and> eligible ord
        \<and> find (\<lambda>x. Review.orderId x = oid) (load_reviews fs) = None
        \<and> rsp = respond 200 (ReviewOk (make_review_id env) (make_review env rd ord))
        \<and> fs' = fs\<lparr>reviews_file := Some (load_reviews fs @ [make_review env rd ord]),
              orders_file := Some ((load_orders fs)
                 (oid \<mapsto> ord\<lparr>hasReview := Some True, reviewId := Some (make_review_id env)\<rparr>))\<rparr>)"
  using assms
  by (auto simp add: review_handler_def parse_body_def truthy_def truthy_num_def Let_def
        stored_order_def load_orders_def make_review_def respond_def lookup_order_OwnOrder_iff
      split: if_splits sum.splits option.splits body.splits found.splits)

lemma review_handler_error:
  assumes "statusCode (fst (review_handler env ev fs)) \<noteq> 200"
  shows "snd (review_handler env ev fs) = fs"
  using assms
  by (auto simp add: review_handler_def parse_body_def truthy_def truthy_num_def respond_def Let_def
      split: if_splits sum.splits option.splits body.splits found.splits)

subsection \<open>The example stores, evaluated\<close>

lemma ex_files_delivered_eq:
  "ex_files_delivered =
     ex_files\<lparr>orders_file := Some ([''ORD123'' \<mapsto> ex_order, ''ORD456'' \<mapsto> ex_order_tracked]
        (''ORD123'' \<mapsto> order_after ex_webhook_env ex_delivered pristine ex_order))\<rparr>"
  unfolding ex_files_delivered_def
  by (subst webhook_handler_found [where wd = ex_delivered and n = "''ORD123''"
        and st = "''Delivered''" and ord = ex_order
        and orders = "[''ORD123'' \<mapsto> ex_order, ''ORD456'' \<mapsto> ex_order_tracked]"])
     (simp_all add: post_def ex_delivered_def ex_files_def)

lemma toLowerCase_Delivered: "toLowerCase ''Delivered'' = ''delivered''"
  by (simp add: toLowerCase_def lower_char_def)

lemma toLowerCase_DELIVERED: "toLowerCase ''DELIVERED'' = ''delivered''"
  by (simp add: toLowerCase_def lower_char_def)

lemma delivered_nonempty: "toLowerCase st = ''delivered'' \<Longrightarrow> st \<noteq> []"
  by (auto simp add: toLowerCase_def)

lemma delivered_stamp_cases:
  "delivered_stamp env wd =
     (case delivery_date wd of
        None \<Rightarrow> Some (now_deliveredAt env)
      | Some d \<Rightarrow> if d = [] then Some (now_deliveredAt env) else Some d)"
  by (simp add: delivered_stamp_def js_or_def truthy_def split: option.splits)

lemma webhook_delivered_state:
  assumes "httpMethod ev = ''POST''" and "event.body ev = Json wd"
    and "order_number wd = Some n" and "n \<noteq> []"
    and "current_status wd = Some st" and "toLowerCase st = ''delivered''"
    and "orders_file fs = Some orders" and "orders n = Some ord"
  shows "snd (snd (webhook_handler env ev rl fs))
           = fs\<lparr>orders_file := Some (orders(n \<mapsto> order_after env wd rl ord))\<rparr>"
    and "deliveredAt (order_after env wd rl ord) = delivered_stamp env wd"
    and "canReview (order_after env wd rl ord) = Some True"
proof -
  have "st \<noteq> []" using assms(6) by (rule delivered_nonempty)
  from webhook_handler_found [OF assms(1-5) this assms(7,8), of env rl]
  show "snd (snd (webhook_handler env ev rl fs))
           = fs\<lparr>orders_file := Some (orders(n \<mapsto> order_after env wd rl ord))\<rparr>"
    by simp
  have "map_option toLowerCase (current_status wd) = Some ''delivered''"
    using assms(5,6) by simp
  then show "deliveredAt (order_after env wd rl ord) = delivered_stamp env wd"
    and "canReview (order_after env wd rl ord) = Some True"
    by (rule order_after_delivered)+
qed

subsection \<open>The review handler: trimming, the record built, the branches taken\<close>

lemma ex_delivered_order_eligible:
  "eligible (order_after ex_webhook_env ex_delivered pristine ex_order)"
  by (simp add: eligible_def truthy_bool_def order_after_delivered ex_delivered_def
        toLowerCase_Delivered)

lemma stored_order_ex_files_delivered:
  "stored_order ex_files_delivered ''ORD123'' = Some (order_after ex_webhook_env ex_delivered pristine ex_order)"
  "stored_order ex_files_delivered ''ORD456'' = Some ex_order_tracked"
  by (simp_all add: ex_files_delivered_eq stored_order_after_update)

lemma load_reviews_ex_files_delivered: "load_reviews ex_files_delivered = []"
  by (simp add: load_reviews_def ex_files_delivered_eq ex_files_def)









lemma trim_blanks_example: "trim ''  Great  '' = ''Great''"
  by (simp add: trim_def trimStart_def trimEnd_def whiteSpace_def strip_leading.simps)

lemma make_review_fields:
  "Review.orderId (make_review env rd ord)
     = (case ReviewRequest.orderId rd of None \<Rightarrow> [] | Some i \<Rightarrow> i)"
  "id_review (make_review env rd ord) = make_review_id env"
  "verified (make_review env rd ord) = True"
  "Review.rating (make_review env rd ord) = (case ReviewRequest.rating rd of None \<Rightarrow> 0 | Some r \<Rightarrow> r)"
  "Review.comment (make_review env rd ord)
     = trim (case ReviewRequest.comment rd of None \<Rightarrow> [] | Some c \<Rightarrow> c)"
  "Review.customerName (make_review env rd ord)
     = (if truthy (ReviewRequest.customerName rd) then ReviewRequest.customerName rd
        else if truthy (Order.customerName ord) then Order.customerName ord
        else Some ''Anonymous'')"
  "Review.productName (make_review env rd ord)
     = (if truthy (ReviewRequest.productName rd) then ReviewRequest.productName rd
        else if truthy (first_item_name ord) then first_item_name ord
        else Some ''Product'')"
  by (simp_all add: make_review_def js_or_def)

lemma ex_review_accepted:
  "review_handler ex_review_env (post ex_review_request) ex_files_delivered =
     (respond 200 (ReviewOk (make_review_id ex_review_env)
         (make_review ex_review_env ex_review_request
            (order_after ex_webhook_env ex_delivered pristine ex_order))),
      ex_files_delivered
        \<lparr>reviews_file := Some [make_review ex_review_env ex_review_request
            (order_after ex_webhook_env ex_delivered pristine ex_order)],
         orders_file := Some ((load_orders ex_files_delivered)
            (''ORD123'' \<mapsto> (order_after ex_webhook_env ex_delivered pristine ex_order)
               \<lparr>hasReview := Some True, reviewId := Some (make_review_id ex_review_env)\<rparr>))\<rparr>)"
  by (subst review_handler_found [where rd = ex_review_request and oid = "''ORD123''"
        and r = 5 and c = "''  Great  ''"
        and ord = "order_after ex_webhook_env ex_delivered pristine ex_order"])
     (simp_all add: post_def ex_review_request_def stored_order_ex_files_delivered
        ex_delivered_order_eligible load_reviews_ex_files_delivered)

lemma review_handler_200_reviews:
  assumes "statusCode (fst (review_handler env ev fs)) = 200"
  shows "snd (review_handler env ev fs) = fs \<or>
    (\<exists>rd oid ord. event.body ev = Json rd \<and> ReviewRequest.orderId rd = Some oid
        \<and> stored_order fs oid = Some ord
        \<and> find (\<lambda>x. Review.orderId x = oid) (load_reviews fs) = None
        \<and> reviews_file (snd (review_handler env ev fs))
           = Some (load_reviews fs @ [make_review env rd ord]))"
proof -
  from review_handler_200 [OF surjective_pairing assms]
  show ?thesis
  proof
    assume "httpMethod ev = ''OPTIONS'' \<and> snd (review_handler env ev fs) = fs
      \<and> fst (review_handler env ev fs) = respond 200 Empty"
    then show ?thesis by simp
  next
    assume "\<exists>rd oid r c ord. httpMethod ev = ''POST'' \<and> event.body ev = Json rd
        \<and> ReviewRequest.orderId rd = Some oid \<and> oid \<noteq> []
        \<and> ReviewRequest.rating rd = Some r \<and> 1 \<le> r \<and> r \<le> 5
        \<and> ReviewRequest.comment rd = Some c \<and> c \<noteq> []
        \<and> stored_order fs oid = Some ord \<and> eligible ord
        \<and> find (\<lambda>x. Review.orderId x = oid) (load_reviews fs) = None
        \<and> fst (review_handler env ev fs)
            = respond 200 (ReviewOk (make_review_id env) (make_review env rd ord))
        \<and> snd (review_handler env ev fs)
            = fs\<lparr>reviews_file := Some (load_reviews fs @ [make_review env rd ord]),
              orders_file := Some ((load_orders fs)
                 (oid \<mapsto> ord\<lparr>hasReview := Some True, reviewId := Some (make_review_id env)\<rparr>))\<rparr>"
    then obtain rd oid ord where "event.body ev = Json rd" "ReviewRequest.orderId rd = Some oid"
      "stored_order fs oid = Some ord"
      "find (\<lambda>x. Review.orderId x = oid) (load_reviews fs) = None"
      "snd (review_handler env ev fs)
            = fs\<lparr>reviews_file := Some (load_reviews fs @ [make_review env rd ord]),
              orders_file := Some ((load_orders fs)
                 (oid \<mapsto> ord\<lparr>hasReview := Some True, reviewId := Some (make_review_id env)\<rparr>))\<rparr>"
      by blast
    then have "event.body ev = Json rd \<and> ReviewRequest.orderId rd = Some oid
        \<and> stored_order fs oid = Some ord
        \<and> find (\<lambda>x. Review.orderId x = oid) (load_reviews fs) = None
        \<and> reviews_file (snd (review_handler env ev fs))
           = Some (load_reviews fs @ [make_review env rd ord])"
      by simp
    then show ?thesis by blast
  qed
qed

lemma review_handler_keeps_invariant:
  assumes "one_review_per_order fs"
  shows "one_review_per_order (snd (review_handler env ev fs))"
proof (cases "statusCode (fst (review_handler env ev fs)) = 200")
  case False
  then show ?thesis using assms by (simp add: review_handler_error)
next
  case True
  from review_handler_200_reviews [OF True]
  consider (same) "snd (review_handler env ev fs) = fs"
    | (added) rd oid ord where "ReviewRequest.orderId rd = Some oid"
        "stored_order fs oid = Some ord"
        "find (\<lambda>x. Review.orderId x = oid) (load_reviews fs) = None"
        "reviews_file (snd (review_handler env ev fs))
           = Some (load_reviews fs @ [make_review env rd ord])"
    by blast
  then show ?thesis
  proof cases
    case same
    then show ?thesis using assms by simp
  next
    case added
    from added(3) have "oid \<notin> Review.orderId ` set (load_reviews fs)"
      by (auto simp add: find_None_iff)
    moreover have "Review.orderId (make_review env rd ord) = oid"
      using added(1) by (simp add: make_review_fields)
    ultimately show ?thesis
      using assms added(4) by (simp add: one_review_per_order_def load_reviews_def)
  qed
qed

lemma webhook_handler_keeps_invariant:
  "one_review_per_order (snd (snd (webhook_handler env ev rl fs))) = one_review_per_order fs"
  by (simp add: one_review_per_order_def load_reviews_def webhook_handler_reviews)

lemma reachable_invariant:
  assumes "reachable fs0 fs" and "one_review_per_order fs0"
  shows "one_review_per_order fs"
  using assms
proof (induction rule: reachable.induct)
  case start
  then show ?case .
next
  case (review fs env ev)
  then show ?case by (simp add: review_handler_keeps_invariant)
next
  case (webhook fs wenv wev rl)
  then show ?case by (simp add: webhook_handler_keeps_invariant)
qed

lemma review_handler_duplicate_unchanged:
  assumes "event.body ev = Json rd" and "ReviewRequest.orderId rd = Some oid"
    and "oid \<in> Review.orderId ` set (load_reviews fs)"
  shows "snd (review_handler env ev fs) = fs"
proof (cases "statusCode (fst (review_handler env ev fs)) = 200")
  case False
  then show ?thesis by (rule review_handler_error)
next
  case True
  from review_handler_200_reviews [OF True] assms(1,2)
  have "snd (review_handler env ev fs) = fs
      \<or> find (\<lambda>x. Review.orderId x = oid) (load_reviews fs) = None"
    by auto
  with assms(3) show ?thesis by (auto simp add: find_None_iff)
qed

lemma ex_files_reviewed_eq:
  "ex_files_reviewed =
      ex_files_delivered
        \<lparr>reviews_file := Some [make_review ex_review_env ex_review_request
            (order_after ex_webhook_env ex_delivered pristine ex_order)],
         orders_file := Some ((load_orders ex_files_delivered)
            (''ORD123'' \<mapsto> (order_after ex_webhook_env ex_delivered pristine ex_order)
               \<lparr>hasReview := Some True, reviewId := Some (make_review_id ex_review_env)\<rparr>))\<rparr>"
  by (simp add: ex_files_reviewed_def ex_review_accepted)

lemma load_reviews_ex_files_reviewed:
  "load_reviews ex_files_reviewed
     = [make_review ex_review_env ex_review_request
          (order_after ex_webhook_env ex_delivered pristine ex_order)]"
  by (simp add: ex_files_reviewed_eq load_reviews_def)


subsection \<open>Keys that the document does not have\<close>

lemma webhook_handler_files:
  "snd (snd (webhook_handler env ev rl fs)) = fs \<or>
    (\<exists>wd n orders ord. event.body ev = Json wd \<and> order_number wd = Some n
        \<and> orders_file fs = Some orders \<and> orders n = Some ord
        \<and> snd (snd (webhook_handler env ev rl fs))
            = fs\<lparr>orders_file := Some (orders(n \<mapsto> order_after env wd rl ord))\<rparr>)"
proof (cases "\<exists>wd. event.body ev = Json wd")
  case False
  then show ?thesis
    by (auto simp add: webhook_handler_def parse_body_def truthy_def split: body.splits)
next
  case True
  then obtain wd where wd: "event.body ev = Json wd" by blast
  show ?thesis
  proof (cases "orders_file fs")
    case None
    then show ?thesis
      by (auto simp add: webhook_handler_def parse_body_def wd)
  next
    case (Some orders)
    then have same: "fs\<lparr>orders_file := Some orders\<rparr> = fs" by simp
    show ?thesis
    proof (cases "order_number wd")
      case None
      then show ?thesis
        by (auto simp add: webhook_handler_def parse_body_def wd truthy_def)
    next
      case n: (Some n)
      show ?thesis
      proof (cases "lookup_order rl orders n")
        case (OwnOrder ord)
        then have "orders n = Some ord" by (simp add: lookup_order_OwnOrder_iff)
        with wd n Some OwnOrder show ?thesis
          by (auto simp add: webhook_handler_def parse_body_def update_order_succeeds)
      next
        case (Inherited h)
        with wd n Some same show ?thesis
          by (auto simp add: webhook_handler_def parse_body_def split: sum.splits)
      next
        case TruthyPrimitive
        with wd n Some same show ?thesis
          by (auto simp add: webhook_handler_def parse_body_def split: sum.splits)
      next
        case Missing
        with wd n Some show ?thesis
          by (auto simp add: webhook_handler_def parse_body_def)
      qed
    qed
  qed
qed

lemma webhook_frame_documents:
  "reviews_file (snd (snd (webhook_handler env ev rl fs))) = reviews_file fs
     \<and> (\<forall>k. (\<forall>wd. event.body ev = Json wd \<longrightarrow> order_number wd \<noteq> Some k)
            \<longrightarrow> stored_order (snd (snd (webhook_handler env ev rl fs))) k = stored_order fs k)
     \<and> (\<forall>k. stored_order (snd (snd (webhook_handler env ev rl fs))) k = None
            \<longleftrightarrow> stored_order fs k = None)"
  using webhook_handler_files [of env ev rl fs]
  by (auto simp add: stored_order_def webhook_handler_reviews split: if_splits)

lemma webhook_own_key_realm:
  assumes "httpMethod ev = ''POST''" and "event.body ev = Json wd"
    and "order_number wd = Some n" and "n \<noteq> []"
    and "current_status wd = Some st" and "st \<noteq> []"
    and "orders_file fs = Some orders" and "orders n = Some ord"
    and "trackingUpdates ord \<noteq> None \<or> inherited_tracking rl = None"
  shows "fst (snd (webhook_handler env ev rl fs)) = rl"
  using webhook_handler_found [OF assms(1-8), of env rl] assms(9)
  by (auto simp add: realm_after_cases split: option.splits)

lemma webhook_appends_one_unpolluted:
  assumes "httpMethod ev = ''POST''" and "event.body ev = Json wd"
    and "order_number wd = Some n" and "n \<noteq> []"
    and "current_status wd = Some st" and "st \<noteq> []"
    and "orders_file fs = Some orders" and "orders n = Some ord"
    and "trackingUpdates ord \<noteq> None \<or> inherited_tracking rl = None"
  shows "statusCode (fst (webhook_handler env ev rl fs)) = 200
     \<and> map_option trackingUpdates (stored_order (snd (snd (webhook_handler env ev rl fs))) n)
           = Some (Some ((case trackingUpdates ord of None \<Rightarrow> [] | Some us \<Rightarrow> us)
                          @ [tracking_entry wd]))"
  using webhook_handler_found [OF assms(1-8), of env rl] assms(9)
  by (auto simp add: respond_def stored_order_after_update order_after_tracking
        split: option.splits)

lemma review_unreadable_not_found:
  assumes "orders_file fs = None"
    and "httpMethod ev = ''POST''" and "event.body ev = Json rd"
    and "ReviewRequest.orderId rd = Some oid" and "oid \<noteq> []"
    and "ReviewRequest.rating rd = Some r" and "1 \<le> r" and "r \<le> 5"
    and "ReviewRequest.comment rd = Some c" and "c \<noteq> []"
    and "oid \<noteq> ''__proto__''" and "oid \<notin> set prototype_members"
  shows "review_handler env ev fs = (respond 404 (Error ''Order not found''), fs)"
proof -
  have "lookup_order pristine (load_orders fs) oid = Missing"
    using assms(1,11,12)
    by (simp add: lookup_order_def load_orders_def pristine_def no_properties_def truthy_def
          truthy_bool_def)
  with assms show ?thesis
    by (auto simp add: review_handler_def parse_body_def truthy_def truthy_num_def Let_def)
qed

lemma webhook_unreadable_not_found:
  assumes "orders_file fs = None"
    and "httpMethod ev = ''POST''" and "event.body ev = Json wd"
    and "truthy (order_number wd)" and "truthy (current_status wd)"
  shows "webhook_handler env ev rl fs = (respond 404 (Error ''Orders file not found''), rl, fs)"
  using assms by (simp add: webhook_handler_def parse_body_def)

subsection \<open>The example realm, evaluated\<close>

lemma ex_proto_run:
  "webhook_handler ex_webhook_env (post ex_proto) pristine ex_files =
     (respond 200 (WebhookOk ''__proto__'' ''shipped''),
      pristine
        \<lparr>hosts := (hosts pristine)(ObjectPrototype :=
            \<lparr>own_status = Some ''shipped'',
             own_lastUpdated = Some ''2024-01-16T08:00:00.000Z'',
             own_trackingUpdates = Some ObjectPrototype,
             own_deliveredAt = None, own_canReview = None\<rparr>),
         arrays := (arrays pristine)(ObjectPrototype := [tracking_entry ex_proto])\<rparr>,
      ex_files)"
proof -
  have l: "lookup_order pristine [''ORD123'' \<mapsto> ex_order, ''ORD456'' \<mapsto> ex_order_tracked]
             ''__proto__'' = Inherited ObjectPrototype"
    by (simp add: lookup_order_def)
  have lc: "toLowerCase ''shipped'' \<noteq> ''delivered''"
    by (simp add: toLowerCase_def lower_char_def)
  have u: "update_host ex_webhook_env ex_proto pristine ObjectPrototype =
     Inr (pristine
        \<lparr>hosts := (hosts pristine)(ObjectPrototype :=
            \<lparr>own_status = Some ''shipped'',
             own_lastUpdated = Some ''2024-01-16T08:00:00.000Z'',
             own_trackingUpdates = Some ObjectPrototype,
             own_deliveredAt = None, own_canReview = None\<rparr>),
         arrays := (arrays pristine)(ObjectPrototype := [tracking_entry ex_proto])\<rparr>)"
    using lc
    by (simp add: update_host_def Let_def pristine_def no_properties_def ex_webhook_env_def)
       (simp add: ex_proto_def)
  have n: "order_number ex_proto = Some ''__proto__''"
    and st: "current_status ex_proto = Some ''shipped''"
    by (simp_all add: ex_proto_def)
  have f: "orders_file ex_files = Some [''ORD123'' \<mapsto> ex_order, ''ORD456'' \<mapsto> ex_order_tracked]"
    and same: "ex_files\<lparr>orders_file :=
        Some [''ORD123'' \<mapsto> ex_order, ''ORD456'' \<mapsto> ex_order_tracked]\<rparr> = ex_files"
    by (simp_all add: ex_files_def)
  show ?thesis
    by (simp add: webhook_handler_def post_def parse_body_def truthy_def Let_def n st f l u same)
qed

lemma ex_realm_polluted_eq:
  "ex_realm_polluted =
     pristine
        \<lparr>hosts := (hosts pristine)(ObjectPrototype :=
            \<lparr>own_status = Some ''shipped'',
             own_lastUpdated = Some ''2024-01-16T08:00:00.000Z'',
             own_trackingUpdates = Some ObjectPrototype,
             own_deliveredAt = None, own_canReview = None\<rparr>),
         arrays := (arrays pristine)(ObjectPrototype := [tracking_entry ex_proto])\<rparr>"
  by (simp add: ex_realm_polluted_def ex_proto_run)

lemma ex_realm_polluted_tracking:
  "inherited_tracking ex_realm_polluted = Some ObjectPrototype"
  "arrays ex_realm_polluted ObjectPrototype = [tracking_entry ex_proto]"
  by (simp_all add: ex_realm_polluted_eq inherited_tracking_def)

section \<open>The claims\<close>

subsection \<open>Webhook handler\<close>

text \<open>
  Claim C1 says that a valid event for an existing order makes the order's
  \<open>trackingUpdates\<close> exactly one entry longer. That holds when the order has the field
  or \<^verbatim>\<open>Object.prototype\<close> has none (lemma \<open>webhook_appends_one_unpolluted\<close>). It
  fails in a process that has answered an event for \<^verbatim>\<open>__proto__\<close>: the order
  \<open>ORD123\<close>, which has no tracking field, is then persisted with two entries, the
  inherited one and its own.
\<close>

theorem webhook_inherited_tracking_persisted:
  "stored_order ex_files ''ORD456'' = Some ex_order_tracked
   \<and> stored_order ex_files ''ORD123'' = Some ex_order
   \<and> trackingUpdates ex_order = None
   \<and> order_number ex_delivered = Some ''ORD123''
   \<and> statusCode (fst (webhook_handler ex_webhook_env_later (post ex_delivered) ex_realm_polluted
        ex_files)) = 200
   \<and> map_option trackingUpdates
        (stored_order (snd (snd (webhook_handler ex_webhook_env_later (post ex_delivered)
           ex_realm_polluted ex_files))) ''ORD123'')
        = Some (Some [tracking_entry ex_proto, tracking_entry ex_delivered])
   \<and> length [tracking_entry ex_proto, tracking_entry ex_delivered] \<noteq> length ([] :: TrackingUpdate list) + 1"
proof -
  have s0: "stored_order ex_files ''ORD456'' = Some ex_order_tracked"
    "stored_order ex_files ''ORD123'' = Some ex_order"
    by (simp_all add: stored_order_def ex_files_def)
  have t0: "trackingUpdates ex_order = None"
    by (simp add: ex_order_def)
  have n: "order_number ex_delivered = Some ''ORD123''"
    and st: "current_status ex_delivered = Some ''Delivered''"
    by (simp_all add: ex_delivered_def)
  have p: "httpMethod (post ex_delivered) = ''POST''"
    and j: "event.body (post ex_delivered) = Json ex_delivered"
    by (simp_all add: post_def)
  have f: "orders_file ex_files = Some [''ORD123'' \<mapsto> ex_order, ''ORD456'' \<mapsto> ex_order_tracked]"
    and l: "[''ORD123'' \<mapsto> ex_order, ''ORD456'' \<mapsto> ex_order_tracked] ''ORD123'' = Some ex_order"
    by (simp_all add: ex_files_def)
  note run = webhook_handler_found [OF p j n _ st _ f l, of ex_webhook_env_later ex_realm_polluted]
  have ok: "statusCode (fst (webhook_handler ex_webhook_env_later (post ex_delivered)
        ex_realm_polluted ex_files)) = 200"
    by (simp add: run respond_def)
  have tr: "map_option trackingUpdates
        (stored_order (snd (snd (webhook_handler ex_webhook_env_later (post ex_delivered)
           ex_realm_polluted ex_files))) ''ORD123'')
        = Some (Some [tracking_entry ex_proto, tracking_entry ex_delivered])"
    by (simp add: run stored_order_after_update order_after_tracking t0
          ex_realm_polluted_tracking)
  from s0 t0 n ok tr show ?thesis by simp
qed

text \<open>The lengths before and after: none, and two.\<close>

theorem webhook_inherited_tracking_persisted_witness:
  "map_option (length \<circ> (\<lambda>ord. case trackingUpdates ord of None \<Rightarrow> [] | Some us \<Rightarrow> us))
     (stored_order ex_files ''ORD123'') = Some 0
   \<and> map_option (length \<circ> (\<lambda>ord. case trackingUpdates ord of None \<Rightarrow> [] | Some us \<Rightarrow> us))
        (stored_order (snd (snd (webhook_handler ex_webhook_env_later (post ex_delivered)
           ex_realm_polluted ex_files))) ''ORD123'') = Some 2"
  using webhook_inherited_tracking_persisted by auto

text \<open>
  Claim C10 says that an order without a \<open>trackingUpdates\<close> field is persisted with
  exactly one entry. In a process that has just started it is: \<^verbatim>\<open>[]\<close> is assigned
  before the push. After an event for \<^verbatim>\<open>__proto__\<close> the read in
  \<^verbatim>\<open>order.trackingUpdates || []\<close> finds the array of \<^verbatim>\<open>Object.prototype\<close>
  instead, the answer is still 200, and the order is persisted with two entries.
\<close>

theorem webhook_missing_tracking_not_single:
  "stored_order ex_files ''ORD123'' = Some ex_order
   \<and> trackingUpdates ex_order = None
   \<and> order_number ex_delivered_undated = Some ''ORD123''
   \<and> map_option trackingUpdates
        (stored_order (snd (snd (webhook_handler ex_webhook_env (post ex_delivered_undated)
           pristine ex_files))) ''ORD123'')
        = Some (Some [tracking_entry ex_delivered_undated])
   \<and> statusCode (fst (webhook_handler ex_webhook_env_later (post ex_delivered_undated)
        ex_realm_polluted ex_files)) = 200
   \<and> map_option (length \<circ> (\<lambda>ord. case trackingUpdates ord of None \<Rightarrow> [] | Some us \<Rightarrow> us))
        (stored_order (snd (snd (webhook_handler ex_webhook_env_later (post ex_delivered_undated)
           ex_realm_polluted ex_files))) ''ORD123'')
        = Some 2"
proof -
  have s0: "stored_order ex_files ''ORD123'' = Some ex_order"
    by (simp add: stored_order_def ex_files_def)
  have t0: "trackingUpdates ex_order = None"
    by (simp add: ex_order_def)
  have n: "order_number ex_delivered_undated = Some ''ORD123''"
    and st: "current_status ex_delivered_undated = Some ''Delivered''"
    by (simp_all add: ex_delivered_undated_def ex_delivered_def)
  have p: "httpMethod (post ex_delivered_undated) = ''POST''"
    and j: "event.body (post ex_delivered_undated) = Json ex_delivered_undated"
    by (simp_all add: post_def)
  have f: "orders_file ex_files = Some [''ORD123'' \<mapsto> ex_order, ''ORD456'' \<mapsto> ex_order_tracked]"
    and l: "[''ORD123'' \<mapsto> ex_order, ''ORD456'' \<mapsto> ex_order_tracked] ''ORD123'' = Some ex_order"
    by (simp_all add: ex_files_def)
  note fresh = webhook_handler_found [OF p j n _ st _ f l, of ex_webhook_env pristine]
  note warm = webhook_handler_found [OF p j n _ st _ f l, of ex_webhook_env_later ex_realm_polluted]
  have none: "inherited_tracking pristine = None"
    by (simp add: inherited_tracking_def pristine_def no_properties_def)
  have one: "map_option trackingUpdates
        (stored_order (snd (snd (webhook_handler ex_webhook_env (post ex_delivered_undated)
           pristine ex_files))) ''ORD123'')
        = Some (Some [tracking_entry ex_delivered_undated])"
    by (simp add: fresh stored_order_after_update order_after_tracking t0 none)
  have ok: "statusCode (fst (webhook_handler ex_webhook_env_later (post ex_delivered_undated)
        ex_realm_polluted ex_files)) = 200"
    by (simp add: warm respond_def)
  have two: "map_option (length \<circ> (\<lambda>ord. case trackingUpdates ord of None \<Rightarrow> [] | Some us \<Rightarrow> us))
        (stored_order (snd (snd (webhook_handler ex_webhook_env_later (post ex_delivered_undated)
           ex_realm_polluted ex_files))) ''ORD123'')
        = Some 2"
    by (simp add: warm stored_order_after_update order_after_tracking t0
          ex_realm_polluted_tracking)
  from s0 t0 n one ok two show ?thesis by blast
qed

text \<open>The persisted length in the warm process is not one.\<close>

theorem webhook_missing_tracking_not_single_witness:
  "map_option (length \<circ> (\<lambda>ord. case trackingUpdates ord of None \<Rightarrow> [] | Some us \<Rightarrow> us))
        (stored_order (snd (snd (webhook_handler ex_webhook_env_later (post ex_delivered_undated)
           ex_realm_polluted ex_files))) ''ORD123'') \<noteq> Some 1"
  using webhook_missing_tracking_not_single by auto

text \<open>
  Claim C8 says that a successful webhook invocation changes nothing but the referenced
  order's record. The documents are framed as claimed (lemma
  \<open>webhook_frame_documents\<close>), but an event whose order reference is
  \<^verbatim>\<open>__proto__\<close>, a key that the document does not have, is answered with 200 and
  leaves its status and its tracking entry on \<^verbatim>\<open>Object.prototype\<close>, where later
  invocations in the process find them.
\<close>

theorem webhook_inherited_key_changes_realm:
  "order_number ex_proto = Some ''__proto__''
   \<and> stored_order ex_files ''__proto__'' = None
   \<and> webhook_handler ex_webhook_env (post ex_proto) pristine ex_files
        = (respond 200 (WebhookOk ''__proto__'' ''shipped''), ex_realm_polluted, ex_files)
   \<and> own_status (hosts pristine ObjectPrototype) = None
   \<and> own_status (hosts ex_realm_polluted ObjectPrototype) = Some ''shipped''
   \<and> own_trackingUpdates (hosts ex_realm_polluted ObjectPrototype) = Some ObjectPrototype
   \<and> arrays ex_realm_polluted ObjectPrototype = [tracking_entry ex_proto]
   \<and> ex_realm_polluted \<noteq> pristine"
proof -
  have n: "order_number ex_proto = Some ''__proto__''"
    by (simp add: ex_proto_def)
  have none: "stored_order ex_files ''__proto__'' = None"
    by (simp add: stored_order_def ex_files_def)
  have run: "webhook_handler ex_webhook_env (post ex_proto) pristine ex_files
        = (respond 200 (WebhookOk ''__proto__'' ''shipped''), ex_realm_polluted, ex_files)"
    by (simp add: ex_proto_run ex_realm_polluted_eq)
  have before: "own_status (hosts pristine ObjectPrototype) = None"
    by (simp add: pristine_def no_properties_def)
  have after: "own_status (hosts ex_realm_polluted ObjectPrototype) = Some ''shipped''"
    "own_trackingUpdates (hosts ex_realm_polluted ObjectPrototype) = Some ObjectPrototype"
    by (simp_all add: ex_realm_polluted_eq)
  from before after(1) have "ex_realm_polluted \<noteq> pristine"
    by auto
  with n none run before after ex_realm_polluted_tracking(2) show ?thesis
    by blast
qed

text \<open>The answer is 200, the documents are as before, the realm is not.\<close>

theorem webhook_inherited_key_changes_realm_witness:
  "statusCode (fst (webhook_handler ex_webhook_env (post ex_proto) pristine ex_files)) = 200
   \<and> fst (snd (webhook_handler ex_webhook_env (post ex_proto) pristine ex_files)) \<noteq> pristine
   \<and> snd (snd (webhook_handler ex_webhook_env (post ex_proto) pristine ex_files)) = ex_files"
  using webhook_inherited_key_changes_realm by (simp add: respond_def)

text \<open>
  Claim C4, as the code has it. A webhook event whose new status lower-cases to
  \<open>delivered\<close> sets \<open>deliveredAt\<close> of an existing order to the event's delivery
  date when that is present and not empty, and to the clock otherwise, and sets
  \<open>canReview\<close>. After a second such event for the same order, \<open>canReview\<close> is still
  set and \<open>deliveredAt\<close> is what the second event gives. When the same event is
  delivered twice and the clock has not gone back, \<open>deliveredAt\<close> does not decrease.
\<close>

theorem delivered_marks_reviewable:
  assumes "httpMethod ev1 = ''POST''" and "event.body ev1 = Json wd1"
    and "order_number wd1 = Some n" and "n \<noteq> []"
    and "current_status wd1 = Some st1" and "toLowerCase st1 = ''delivered''"
    and "orders_file fs = Some orders" and "orders n = Some ord"
    and "httpMethod ev2 = ''POST''" and "event.body ev2 = Json wd2"
    and "order_number wd2 = Some n"
    and "current_status wd2 = Some st2" and "toLowerCase st2 = ''delivered''"
  shows "map_option deliveredAt (stored_order (snd (snd (webhook_handler env1 ev1 rl1 fs))) n)
           = Some (delivered_stamp env1 wd1)
     \<and> map_option canReview (stored_order (snd (snd (webhook_handler env1 ev1 rl1 fs))) n)
           = Some (Some True)
     \<and> delivered_stamp env1 wd1 =
           (case delivery_date wd1 of
              None \<Rightarrow> Some (now_deliveredAt env1)
            | Some d \<Rightarrow> if d = [] then Some (now_deliveredAt env1) else Some d)
     \<and> map_option deliveredAt
           (stored_order (snd (snd (webhook_handler env2 ev2 rl2 (snd (snd (webhook_handler env1 ev1 rl1 fs)))))) n)
           = Some (delivered_stamp env2 wd2)
     \<and> map_option canReview
           (stored_order (snd (snd (webhook_handler env2 ev2 rl2 (snd (snd (webhook_handler env1 ev1 rl1 fs)))))) n)
           = Some (Some True)
     \<and> (wd2 = wd1 \<and> now_deliveredAt env1 \<le> now_deliveredAt env2 \<longrightarrow>
           (\<exists>d1 d2. delivered_stamp env1 wd1 = Some d1 \<and> delivered_stamp env2 wd2 = Some d2
                    \<and> d1 \<le> d2))"
proof -
  let ?fs1 = "snd (snd (webhook_handler env1 ev1 rl1 fs))"
  let ?o1 = "order_after env1 wd1 rl1 ord"
  let ?orders1 = "orders(n \<mapsto> ?o1)"
  note first = webhook_delivered_state [OF assms(1-8), of env1 rl1]
  have fs1: "orders_file ?fs1 = Some ?orders1" and o1: "?orders1 n = Some ?o1"
    by (simp_all add: first(1))
  note second = webhook_delivered_state [OF assms(9,10,11,4,12,13) fs1 o1, of env2 rl2]
  have a: "map_option deliveredAt (stored_order ?fs1 n) = Some (delivered_stamp env1 wd1)"
    and b: "map_option canReview (stored_order ?fs1 n) = Some (Some True)"
    by (simp_all add: first stored_order_after_update)
  have c: "map_option deliveredAt (stored_order (snd (snd (webhook_handler env2 ev2 rl2 ?fs1))) n)
             = Some (delivered_stamp env2 wd2)"
    and d: "map_option canReview (stored_order (snd (snd (webhook_handler env2 ev2 rl2 ?fs1))) n)
             = Some (Some True)"
    by (simp_all add: second stored_order_after_update)
  have e: "wd2 = wd1 \<and> now_deliveredAt env1 \<le> now_deliveredAt env2 \<longrightarrow>
           (\<exists>d1 d2. delivered_stamp env1 wd1 = Some d1 \<and> delivered_stamp env2 wd2 = Some d2
                    \<and> d1 \<le> d2)"
    by (auto simp add: delivered_stamp_cases split: option.splits)
  from a b c d e delivered_stamp_cases [of env1 wd1] show ?thesis by blast
qed

text \<open>An undated delivery event for \<open>ORD123\<close>, delivered twice a day apart.\<close>

theorem delivered_marks_reviewable_witness:
  "toLowerCase ''Delivered'' = ''delivered''
   \<and> current_status ex_delivered_undated = Some ''Delivered''
   \<and> delivery_date ex_delivered_undated = None
   \<and> stored_order ex_files ''ORD123'' = Some ex_order
   \<and> now_deliveredAt ex_webhook_env \<le> now_deliveredAt ex_webhook_env_later
   \<and> map_option deliveredAt
        (stored_order (snd (snd (webhook_handler ex_webhook_env (post ex_delivered_undated) pristine ex_files)))
           ''ORD123'') = Some (Some ''2024-01-16T08:00:00.001Z'')
   \<and> map_option canReview
        (stored_order (snd (snd (webhook_handler ex_webhook_env (post ex_delivered_undated) pristine ex_files)))
           ''ORD123'') = Some (Some True)
   \<and> map_option deliveredAt
        (stored_order (snd (snd (webhook_handler ex_webhook_env_later (post ex_delivered_undated) pristine
           (snd (snd (webhook_handler ex_webhook_env (post ex_delivered_undated) pristine ex_files))))))
           ''ORD123'') = Some (Some ''2024-01-17T08:00:00.001Z'')
   \<and> map_option canReview
        (stored_order (snd (snd (webhook_handler ex_webhook_env_later (post ex_delivered_undated) pristine
           (snd (snd (webhook_handler ex_webhook_env (post ex_delivered_undated) pristine ex_files))))))
           ''ORD123'') = Some (Some True)
   \<and> ''2024-01-16T08:00:00.001Z'' \<le> ''2024-01-17T08:00:00.001Z''"
proof -
  have p: "httpMethod (post ex_delivered_undated) = ''POST''"
    and j: "event.body (post ex_delivered_undated) = Json ex_delivered_undated"
    by (simp_all add: post_def)
  have n: "order_number ex_delivered_undated = Some ''ORD123''"
    and st: "current_status ex_delivered_undated = Some ''Delivered''"
    and dd: "delivery_date ex_delivered_undated = None"
    by (simp_all add: ex_delivered_undated_def ex_delivered_def)
  have f: "orders_file ex_files = Some [''ORD123'' \<mapsto> ex_order, ''ORD456'' \<mapsto> ex_order_tracked]"
    and l: "[''ORD123'' \<mapsto> ex_order, ''ORD456'' \<mapsto> ex_order_tracked] ''ORD123'' = Some ex_order"
    by (simp_all add: ex_files_def)
  have s0: "stored_order ex_files ''ORD123'' = Some ex_order"
    by (simp add: stored_order_def f)
  have clock: "now_deliveredAt ex_webhook_env \<le> now_deliveredAt ex_webhook_env_later"
    by (simp add: ex_webhook_env_def ex_webhook_env_later_def)
  have stamp1: "delivered_stamp ex_webhook_env ex_delivered_undated
                  = Some ''2024-01-16T08:00:00.001Z''"
    and stamp2: "delivered_stamp ex_webhook_env_later ex_delivered_undated
                  = Some ''2024-01-17T08:00:00.001Z''"
    by (simp_all add: delivered_stamp_cases dd ex_webhook_env_def ex_webhook_env_later_def)
  have ne: "''ORD123'' \<noteq> []" by simp
  note t = delivered_marks_reviewable
    [OF p j n ne st toLowerCase_Delivered f l p j n st toLowerCase_Delivered,
     of ex_webhook_env pristine ex_webhook_env_later pristine]
  have le: "''2024-01-16T08:00:00.001Z'' \<le> ''2024-01-17T08:00:00.001Z''"
    by simp
  from t show ?thesis
    unfolding stamp1 stamp2
    using toLowerCase_Delivered st dd s0 clock le by blast
qed

text \<open>
  Two delivery events as such need not keep \<open>deliveredAt\<close> from decreasing: the second
  event's delivery date replaces the first's, also when it is the earlier date. And a
  delivery date that is present but empty is not stored: the clock is.
\<close>

theorem delivered_twice_decreasing_counterexample:
  "map_option toLowerCase (current_status ex_delivered) = Some ''delivered''
   \<and> map_option toLowerCase (current_status ex_delivered_earlier) = Some ''delivered''
   \<and> order_number ex_delivered = Some ''ORD123''
   \<and> order_number ex_delivered_earlier = Some ''ORD123''
   \<and> now_deliveredAt ex_webhook_env \<le> now_deliveredAt ex_webhook_env_later
   \<and> stored_order ex_files ''ORD123'' = Some ex_order
   \<and> ex_files_delivered
        = snd (snd (webhook_handler ex_webhook_env (post ex_delivered) pristine ex_files))
   \<and> ex_files_delivered_again
        = snd (snd (webhook_handler ex_webhook_env_later (post ex_delivered_earlier) pristine
             ex_files_delivered))
   \<and> map_option deliveredAt (stored_order ex_files_delivered ''ORD123'') = Some (Some ''2024-01-15'')
   \<and> map_option deliveredAt (stored_order ex_files_delivered_again ''ORD123'')
        = Some (Some ''2024-01-01'')
   \<and> \<not> ''2024-01-15'' \<le> ''2024-01-01''
   \<and> map_option toLowerCase (current_status ex_delivered_blank) = Some ''delivered''
   \<and> delivery_date ex_delivered_blank = Some ''''
   \<and> map_option deliveredAt
        (stored_order
           (snd (snd (webhook_handler ex_webhook_env (post ex_delivered_blank) pristine ex_files)))
           ''ORD123'') = Some (Some ''2024-01-16T08:00:00.001Z'')"
proof -
  have l1: "map_option toLowerCase (current_status ex_delivered) = Some ''delivered''"
    by (simp add: ex_delivered_def toLowerCase_Delivered)
  have l2: "map_option toLowerCase (current_status ex_delivered_earlier) = Some ''delivered''"
    by (simp add: ex_delivered_earlier_def toLowerCase_DELIVERED)
  have l3: "map_option toLowerCase (current_status ex_delivered_blank) = Some ''delivered''"
    and d3: "delivery_date ex_delivered_blank = Some ''''"
    by (simp_all add: ex_delivered_blank_def ex_delivered_def toLowerCase_Delivered)
  have s0: "stored_order ex_files ''ORD123'' = Some ex_order"
    by (simp add: stored_order_def ex_files_def)
  have s1: "map_option deliveredAt (stored_order ex_files_delivered ''ORD123'')
              = Some (Some ''2024-01-15'')"
    using l1
    by (simp add: ex_files_delivered_eq stored_order_after_update order_after_delivered
          delivered_stamp_cases)
       (simp add: ex_delivered_def)
  have again: "ex_files_delivered_again =
     ex_files_delivered\<lparr>orders_file := Some
        (([''ORD123'' \<mapsto> ex_order, ''ORD456'' \<mapsto> ex_order_tracked]
            (''ORD123'' \<mapsto> order_after ex_webhook_env ex_delivered pristine ex_order))
         (''ORD123'' \<mapsto> order_after ex_webhook_env_later ex_delivered_earlier pristine
              (order_after ex_webhook_env ex_delivered pristine ex_order)))\<rparr>"
    unfolding ex_files_delivered_again_def
    by (subst webhook_handler_found [where wd = ex_delivered_earlier and n = "''ORD123''"
          and st = "''DELIVERED''" and ord = "order_after ex_webhook_env ex_delivered pristine ex_order"
          and orders = "[''ORD123'' \<mapsto> ex_order, ''ORD456'' \<mapsto> ex_order_tracked]
            (''ORD123'' \<mapsto> order_after ex_webhook_env ex_delivered pristine ex_order)"])
       (simp_all add: post_def ex_delivered_earlier_def ex_files_delivered_eq)
  have s2: "map_option deliveredAt (stored_order ex_files_delivered_again ''ORD123'')
              = Some (Some ''2024-01-01'')"
    using l2
    by (simp add: again stored_order_after_update order_after_delivered delivered_stamp_cases)
       (simp add: ex_delivered_earlier_def)
  have blank: "snd (snd (webhook_handler ex_webhook_env (post ex_delivered_blank) pristine ex_files)) =
     ex_files\<lparr>orders_file := Some ([''ORD123'' \<mapsto> ex_order, ''ORD456'' \<mapsto> ex_order_tracked]
        (''ORD123'' \<mapsto> order_after ex_webhook_env ex_delivered_blank pristine ex_order))\<rparr>"
    by (subst webhook_handler_found [where wd = ex_delivered_blank and n = "''ORD123''"
          and st = "''Delivered''" and ord = ex_order
          and orders = "[''ORD123'' \<mapsto> ex_order, ''ORD456'' \<mapsto> ex_order_tracked]"])
       (simp_all add: post_def ex_delivered_blank_def ex_delivered_def ex_files_def)
  have s3: "map_option deliveredAt
        (stored_order
           (snd (snd (webhook_handler ex_webhook_env (post ex_delivered_blank) pristine ex_files)))
           ''ORD123'') = Some (Some ''2024-01-16T08:00:00.001Z'')"
    using l3
    by (simp add: blank stored_order_after_update order_after_delivered delivered_stamp_cases d3)
       (simp add: ex_webhook_env_def)
  have clock: "now_deliveredAt ex_webhook_env \<le> now_deliveredAt ex_webhook_env_later"
    by (simp add: ex_webhook_env_def ex_webhook_env_later_def)
  have n: "order_number ex_delivered = Some ''ORD123''"
    "order_number ex_delivered_earlier = Some ''ORD123''"
    by (simp_all add: ex_delivered_def ex_delivered_earlier_def)
  have dec: "\<not> ''2024-01-15'' \<le> ''2024-01-01''"
    by simp
  from l1 l2 n clock s0 ex_files_delivered_def ex_files_delivered_again_def s1 s2 dec l3 d3 s3
  show ?thesis by blast
qed

subsection \<open>Both handlers\<close>

text \<open>
  Claim C9. When either handler answers with status 400, 404 or 405, the two files are
  what they were before the invocation, and so is the realm of the webhook process:
  every such branch returns before a write.
\<close>

theorem errors_write_nothing:
  "(statusCode (fst (webhook_handler wenv whev rl fs)) \<in> {400, 404, 405}
      \<longrightarrow> snd (webhook_handler wenv whev rl fs) = (rl, fs))
   \<and> (statusCode (fst (review_handler renv rvev fs)) \<in> {400, 404, 405}
      \<longrightarrow> snd (review_handler renv rvev fs) = fs)"
proof -
  have "snd (webhook_handler wenv whev rl fs) = (rl, fs)"
    if "statusCode (fst (webhook_handler wenv whev rl fs)) \<in> {400, 404, 405}"
    using that by (intro webhook_handler_error) auto
  moreover have "snd (review_handler renv rvev fs) = fs"
    if "statusCode (fst (review_handler renv rvev fs)) \<in> {400, 404, 405}"
    using that by (intro review_handler_error) auto
  ultimately show ?thesis by blast
qed

text \<open>
  A webhook event for an unknown order (404) and a review of an undelivered order (400).
\<close>

theorem errors_write_nothing_witness:
  "statusCode (fst (webhook_handler ex_webhook_env (post ex_unknown) pristine ex_files_delivered))
     = 404
   \<and> snd (webhook_handler ex_webhook_env (post ex_unknown) pristine ex_files_delivered)
        = (pristine, ex_files_delivered)
   \<and> statusCode (fst (review_handler ex_review_env (post ex_review_undelivered) ex_files_delivered)) = 400
   \<and> snd (review_handler ex_review_env (post ex_review_undelivered) ex_files_delivered)
        = ex_files_delivered"
proof -
  have "lookup_order pristine
          ([''ORD123'' \<mapsto> ex_order, ''ORD456'' \<mapsto> ex_order_tracked]
             (''ORD123'' \<mapsto> order_after ex_webhook_env ex_delivered pristine ex_order))
          ''ORD999'' = Missing"
    by (simp add: lookup_order_def prototype_members_def)
  then have w: "statusCode (fst (webhook_handler ex_webhook_env (post ex_unknown) pristine
                  ex_files_delivered)) = 404"
    by (simp add: webhook_handler_def post_def ex_unknown_def parse_body_def truthy_def
          respond_def Let_def ex_files_delivered_eq)
  have "\<not> eligible ex_order_tracked"
    by (simp add: eligible_def ex_order_tracked_def truthy_bool_def toLowerCase_def lower_char_def)
  then have r: "statusCode (fst (review_handler ex_review_env (post ex_review_undelivered)
                  ex_files_delivered)) = 400"
    by (subst review_handler_found [where rd = ex_review_undelivered and oid = "''ORD456''"
          and r = 5 and c = "''  Great  ''" and ord = ex_order_tracked])
       (simp_all add: post_def ex_review_undelivered_def ex_review_request_def
          stored_order_ex_files_delivered respond_def)
  from w r errors_write_nothing
    [where wenv = ex_webhook_env and whev = "post ex_unknown" and fs = ex_files_delivered
       and rl = pristine and renv = ex_review_env and rvev = "post ex_review_undelivered"]
  show ?thesis by simp
qed

text \<open>
  Claim C6 says that with an unreadable Order Store the webhook handler answers 404 at
  once, while a review request fails at the order-existence check with 404
  \<open>Order not found\<close>. The webhook handler does (lemma
  \<open>webhook_unreadable_not_found\<close>), and so does the review handler for every
  \<open>orderId\<close> that is not a member name of \<^verbatim>\<open>Object.prototype\<close> (lemma
  \<open>review_unreadable_not_found\<close>). For the \<open>orderId\<close> \<^verbatim>\<open>toString\<close> the
  existence check finds the inherited function, and the request is refused by the
  eligibility check with 400.
\<close>

theorem review_inherited_key_unreadable:
  "orders_file ex_files_unreadable = None
   \<and> ReviewRequest.orderId ex_review_toString = Some ''toString''
   \<and> ReviewRequest.rating ex_review_toString = Some 5
   \<and> truthy (ReviewRequest.comment ex_review_toString)
   \<and> webhook_handler ex_webhook_env (post ex_delivered) pristine ex_files_unreadable
        = (respond 404 (Error ''Orders file not found''), pristine, ex_files_unreadable)
   \<and> review_handler ex_review_env (post ex_review_toString) ex_files_unreadable
        = (respond 400 (Error ''Can only review delivered orders''), ex_files_unreadable)"
proof -
  have u: "orders_file ex_files_unreadable = None"
    by (simp add: ex_files_unreadable_def)
  have f: "ReviewRequest.orderId ex_review_toString = Some ''toString''"
    "ReviewRequest.rating ex_review_toString = Some 5"
    "ReviewRequest.comment ex_review_toString = Some ''  Great  ''"
    by (simp_all add: ex_review_toString_def ex_review_request_def)
  have t: "truthy (ReviewRequest.comment ex_review_toString)"
    by (simp add: f truthy_def)
  have w: "webhook_handler ex_webhook_env (post ex_delivered) pristine ex_files_unreadable
        = (respond 404 (Error ''Orders file not found''), pristine, ex_files_unreadable)"
    by (rule webhook_unreadable_not_found [OF u])
       (simp_all add: post_def, simp_all add: ex_delivered_def truthy_def)
  have l: "lookup_order pristine (load_orders ex_files_unreadable) ''toString''
             = Inherited (PrototypeMember ''toString'')"
    by (simp add: lookup_order_def load_orders_def u prototype_members_def)
  have r: "review_handler ex_review_env (post ex_review_toString) ex_files_unreadable
        = (respond 400 (Error ''Can only review delivered orders''), ex_files_unreadable)"
    by (simp add: review_handler_def post_def parse_body_def truthy_def truthy_num_def Let_def
          f l)
  from u f(1,2) t w r show ?thesis by blast
qed

text \<open>The answer is 400, not the 404 of the existence check.\<close>

theorem review_inherited_key_unreadable_witness:
  "statusCode (fst (review_handler ex_review_env (post ex_review_toString) ex_files_unreadable))
     = 400
   \<and> fst (review_handler ex_review_env (post ex_review_toString) ex_files_unreadable)
        \<noteq> respond 404 (Error ''Order not found'')"
  using review_inherited_key_unreadable by (simp add: respond_def)

subsection \<open>Review handler\<close>

text \<open>
  Claim C5. For a review request that passes the field and rating checks and names an
  order of the Order Store: when \<open>canReview\<close> is not true and the status does not
  lower-case to \<open>delivered\<close>, the answer is 400 \<open>Can only review delivered orders\<close>
  and both files are unchanged; when either holds, that error is not returned, and the
  request is decided by the duplicate check.
\<close>

theorem review_eligibility_check:
  assumes "httpMethod ev = ''POST''" and "event.body ev = Json rd"
    and "ReviewRequest.orderId rd = Some oid" and "oid \<noteq> []"
    and "ReviewRequest.rating rd = Some r" and "1 \<le> r" and "r \<le> 5"
    and "ReviewRequest.comment rd = Some c" and "c \<noteq> []"
    and "stored_order fs oid = Some ord"
  shows "(canReview ord \<noteq> Some True
            \<and> map_option toLowerCase (Order.status ord) \<noteq> Some ''delivered''
          \<longrightarrow> review_handler env ev fs
                = (respond 400 (Error ''Can only review delivered orders''), fs))
     \<and> (canReview ord = Some True
            \<or> map_option toLowerCase (Order.status ord) = Some ''delivered''
          \<longrightarrow> fst (review_handler env ev fs)
                  \<noteq> respond 400 (Error ''Can only review delivered orders'')
              \<and> (review_handler env ev fs
                    = (respond 400 (Error ''Review already exists for this order''), fs)
                  \<or> statusCode (fst (review_handler env ev fs)) = 200))"
proof -
  have el: "eligible ord \<longleftrightarrow>
      canReview ord = Some True \<or> map_option toLowerCase (Order.status ord) = Some ''delivered''"
    by (cases "canReview ord") (auto simp add: eligible_def truthy_bool_def)
  note h = review_handler_found [OF assms, of env]
  show ?thesis
  proof (cases "eligible ord")
    case True
    with h have "review_handler env ev fs
          = (respond 400 (Error ''Review already exists for this order''), fs)
        \<or> statusCode (fst (review_handler env ev fs)) = 200"
      by (simp add: respond_def split: option.splits)
    moreover from this
    have "fst (review_handler env ev fs) \<noteq> respond 400 (Error ''Can only review delivered orders'')"
      by (auto simp add: respond_def)
    ultimately show ?thesis using True el by blast
  next
    case False
    with h have "review_handler env ev fs
          = (respond 400 (Error ''Can only review delivered orders''), fs)"
      by simp
    then show ?thesis using False el by blast
  qed
qed

text \<open>The undelivered \<open>ORD456\<close> is refused; the delivered \<open>ORD123\<close> passes.\<close>

theorem review_eligibility_check_witness:
  "stored_order ex_files_delivered ''ORD456'' = Some ex_order_tracked
   \<and> canReview ex_order_tracked \<noteq> Some True
   \<and> map_option toLowerCase (Order.status ex_order_tracked) \<noteq> Some ''delivered''
   \<and> review_handler ex_review_env (post ex_review_undelivered) ex_files_delivered
        = (respond 400 (Error ''Can only review delivered orders''), ex_files_delivered)
   \<and> stored_order ex_files_delivered ''ORD123''
        = Some (order_after ex_webhook_env ex_delivered pristine ex_order)
   \<and> canReview (order_after ex_webhook_env ex_delivered pristine ex_order) = Some True
   \<and> statusCode (fst (review_handler ex_review_env (post ex_review_request) ex_files_delivered))
        = 200"
proof -
  have p: "httpMethod (post ex_review_undelivered) = ''POST''"
    and j: "event.body (post ex_review_undelivered) = Json ex_review_undelivered"
    and p': "httpMethod (post ex_review_request) = ''POST''"
    and j': "event.body (post ex_review_request) = Json ex_review_request"
    by (simp_all add: post_def)
  have f: "ReviewRequest.orderId ex_review_undelivered = Some ''ORD456''"
    "ReviewRequest.rating ex_review_undelivered = Some 5"
    "ReviewRequest.comment ex_review_undelivered = Some ''  Great  ''"
    and f': "ReviewRequest.orderId ex_review_request = Some ''ORD123''"
    "ReviewRequest.rating ex_review_request = Some 5"
    "ReviewRequest.comment ex_review_request = Some ''  Great  ''"
    by (simp_all add: ex_review_undelivered_def ex_review_request_def)
  have no: "canReview ex_order_tracked \<noteq> Some True"
    "map_option toLowerCase (Order.status ex_order_tracked) \<noteq> Some ''delivered''"
    by (simp_all add: ex_order_tracked_def toLowerCase_def lower_char_def)
  have yes: "canReview (order_after ex_webhook_env ex_delivered pristine ex_order) = Some True"
    by (simp add: order_after_delivered ex_delivered_def toLowerCase_Delivered)
  have nodup: "review_handler ex_review_env (post ex_review_request) ex_files_delivered
        \<noteq> (respond 400 (Error ''Review already exists for this order''), ex_files_delivered)"
    by (subst review_handler_found [OF p' j' f'(1) _ f'(2) _ _ f'(3) _
          stored_order_ex_files_delivered(1)])
       (simp_all add: ex_delivered_order_eligible load_reviews_ex_files_delivered respond_def)
  note a = review_eligibility_check [OF p j f(1) _ f(2) _ _ f(3) _
      stored_order_ex_files_delivered(2), of ex_review_env]
  note b = review_eligibility_check [OF p' j' f'(1) _ f'(2) _ _ f'(3) _
      stored_order_ex_files_delivered(1), of ex_review_env]
  from a no have "review_handler ex_review_env (post ex_review_undelivered) ex_files_delivered
        = (respond 400 (Error ''Can only review delivered orders''), ex_files_delivered)"
    by simp
  moreover from b yes nodup
  have "statusCode (fst (review_handler ex_review_env (post ex_review_request) ex_files_delivered))
        = 200"
    by simp
  ultimately show ?thesis
    using no yes stored_order_ex_files_delivered by simp
qed



text \<open>
  Claim C2. From a Review Store with at most one review per \<open>orderId\<close> (the missing or
  empty store among them), every state that invocations of the handlers reach has at
  most one review per \<open>orderId\<close>. When the store already holds a review of the
  request's \<open>orderId\<close>, nothing is written; a request that has passed the earlier
  checks is then answered with 400 \<open>Review already exists for this order\<close>.
\<close>

theorem one_review_per_order_kept:
  "(one_review_per_order fs0 \<and> reachable fs0 fs \<longrightarrow> one_review_per_order fs)
   \<and> (event.body ev = Json rd \<and> ReviewRequest.orderId rd = Some oid
        \<and> oid \<in> Review.orderId ` set (load_reviews fs)
      \<longrightarrow> snd (review_handler env ev fs) = fs)
   \<and> (httpMethod ev = ''POST'' \<and> event.body ev = Json rd
        \<and> ReviewRequest.orderId rd = Some oid \<and> oid \<noteq> []
        \<and> ReviewRequest.rating rd = Some r \<and> 1 \<le> r \<and> r \<le> 5
        \<and> ReviewRequest.comment rd = Some c \<and> c \<noteq> []
        \<and> stored_order fs oid = Some ord \<and> eligible ord
        \<and> oid \<in> Review.orderId ` set (load_reviews fs)
      \<longrightarrow> review_handler env ev fs
            = (respond 400 (Error ''Review already exists for this order''), fs))"
proof -
  have "review_handler env ev fs
            = (respond 400 (Error ''Review already exists for this order''), fs)"
    if h: "httpMethod ev = ''POST''" "event.body ev = Json rd"
      "ReviewRequest.orderId rd = Some oid" "oid \<noteq> []"
      "ReviewRequest.rating rd = Some r" "1 \<le> r" "r \<le> 5"
      "ReviewRequest.comment rd = Some c" "c \<noteq> []"
      "stored_order fs oid = Some ord"
      and e: "eligible ord" and d: "oid \<in> Review.orderId ` set (load_reviews fs)"
  proof -
    from d have "find (\<lambda>x. Review.orderId x = oid) (load_reviews fs) \<noteq> None"
      by (auto simp add: find_None_iff)
    with review_handler_found [OF h, of env] e show ?thesis by auto
  qed
  with reachable_invariant [of fs0 fs] review_handler_duplicate_unchanged [of ev rd oid fs env]
  show ?thesis by blast
qed

text \<open>The review of \<open>ORD123\<close>, submitted a second time.\<close>

theorem one_review_per_order_kept_witness:
  "one_review_per_order ex_files_delivered
   \<and> reachable ex_files_delivered ex_files_reviewed
   \<and> one_review_per_order ex_files_reviewed
   \<and> map Review.orderId (load_reviews ex_files_reviewed) = [''ORD123'']
   \<and> ReviewRequest.orderId ex_review_request = Some ''ORD123''
   \<and> review_handler ex_review_env (post ex_review_request) ex_files_reviewed
        = (respond 400 (Error ''Review already exists for this order''), ex_files_reviewed)"
proof -
  let ?o = "order_after ex_webhook_env ex_delivered pristine ex_order"
  let ?o' = "?o\<lparr>hasReview := Some True, reviewId := Some (make_review_id ex_review_env)\<rparr>"
  have inv0: "one_review_per_order ex_files_delivered"
    by (simp add: one_review_per_order_def load_reviews_ex_files_delivered)
  have "reachable ex_files_delivered
          (snd (review_handler ex_review_env (post ex_review_request) ex_files_delivered))"
    by (rule reachable.review) (rule reachable.start)
  then have reach: "reachable ex_files_delivered ex_files_reviewed"
    by (simp add: ex_files_reviewed_def)
  have ids: "map Review.orderId (load_reviews ex_files_reviewed) = [''ORD123'']"
    by (simp add: load_reviews_ex_files_reviewed make_review_fields ex_review_request_def)
  then have dup: "''ORD123'' \<in> Review.orderId ` set (load_reviews ex_files_reviewed)"
    by (metis list.set_intros(1) set_map)
  have p: "httpMethod (post ex_review_request) = ''POST''"
    and j: "event.body (post ex_review_request) = Json ex_review_request"
    by (simp_all add: post_def)
  have f: "ReviewRequest.orderId ex_review_request = Some ''ORD123''"
    "ReviewRequest.rating ex_review_request = Some 5"
    "ReviewRequest.comment ex_review_request = Some ''  Great  ''"
    by (simp_all add: ex_review_request_def)
  have so: "stored_order ex_files_reviewed ''ORD123'' = Some ?o'"
    by (simp add: ex_files_reviewed_eq stored_order_def)
  have el: "eligible ?o'"
    using ex_delivered_order_eligible by (simp add: eligible_def)
  from one_review_per_order_kept
    [where ?fs0.0 = ex_files_delivered and fs = ex_files_reviewed
       and ev = "post ex_review_request" and rd = ex_review_request and oid = "''ORD123''"
       and r = 5 and c = "''  Great  ''" and ord = ?o' and env = ex_review_env]
    inv0 reach dup p j f so el ids
  show ?thesis by simp
qed

text \<open>
  Claim C3, as the code has it. For a POST review request with an order reference and
  a comment: a rating of 0 is answered with the 400 of the required-fields check; any
  other rating is answered with 400 \<open>Rating must be between 1 and 5\<close> exactly when it
  is below 1 or above 5. The check compares numbers and does not ask for an integer.
\<close>

theorem rating_range_check:
  assumes "httpMethod ev = ''POST''" and "event.body ev = Json rd"
    and "ReviewRequest.orderId rd = Some oid" and "oid \<noteq> []"
    and "ReviewRequest.rating rd = Some r"
    and "ReviewRequest.comment rd = Some c" and "c \<noteq> []"
  shows "(r = 0 \<longrightarrow> review_handler env ev fs
            = (respond 400 (Error ''Missing required fields: orderId, rating, comment''), fs))
     \<and> (r \<noteq> 0 \<longrightarrow>
          (fst (review_handler env ev fs) = respond 400 (Error ''Rating must be between 1 and 5'')
             \<longleftrightarrow> r < 1 \<or> 5 < r))
     \<and> (r < 1 \<or> 5 < r \<longrightarrow>
          statusCode (fst (review_handler env ev fs)) = 400 \<and> snd (review_handler env ev fs) = fs)"
  using assms
  by (auto simp add: review_handler_def parse_body_def truthy_def truthy_num_def Let_def
        respond_def split: option.splits found.splits)

text \<open>A rating of 6 is refused with the range message, a rating of 5 is not.\<close>

theorem rating_range_check_witness:
  "ReviewRequest.rating ex_review_six = Some 6
   \<and> review_handler ex_review_env (post ex_review_six) ex_files_delivered
       = (respond 400 (Error ''Rating must be between 1 and 5''), ex_files_delivered)
   \<and> ReviewRequest.rating ex_review_request = Some 5
   \<and> fst (review_handler ex_review_env (post ex_review_request) ex_files_delivered)
       \<noteq> respond 400 (Error ''Rating must be between 1 and 5'')"
proof -
  have p: "httpMethod (post ex_review_six) = ''POST''"
    and j: "event.body (post ex_review_six) = Json ex_review_six"
    and p': "httpMethod (post ex_review_request) = ''POST''"
    and j': "event.body (post ex_review_request) = Json ex_review_request"
    by (simp_all add: post_def)
  have f: "ReviewRequest.orderId ex_review_six = Some ''ORD123''"
    "ReviewRequest.rating ex_review_six = Some 6"
    "ReviewRequest.comment ex_review_six = Some ''  Great  ''"
    and f': "ReviewRequest.orderId ex_review_request = Some ''ORD123''"
    "ReviewRequest.rating ex_review_request = Some 5"
    "ReviewRequest.comment ex_review_request = Some ''  Great  ''"
    by (simp_all add: ex_review_six_def ex_review_request_def)
  note six = rating_range_check [OF p j f(1) _ f(2) f(3), of ex_review_env ex_files_delivered]
  note five = rating_range_check [OF p' j' f'(1) _ f'(2) f'(3), of ex_review_env ex_files_delivered]
  from six have "fst (review_handler ex_review_env (post ex_review_six) ex_files_delivered)
        = respond 400 (Error ''Rating must be between 1 and 5'')"
    and "snd (review_handler ex_review_env (post ex_review_six) ex_files_delivered)
        = ex_files_delivered"
    by simp_all
  then have "review_handler ex_review_env (post ex_review_six) ex_files_delivered
       = (respond 400 (Error ''Rating must be between 1 and 5''), ex_files_delivered)"
    by (simp add: prod_eq_iff)
  moreover from five
  have "fst (review_handler ex_review_env (post ex_review_request) ex_files_delivered)
       \<noteq> respond 400 (Error ''Rating must be between 1 and 5'')"
    by simp
  ultimately show ?thesis using f(2) f'(2) by simp
qed

text \<open>A rating of 2.5 is accepted and stored.\<close>

theorem rating_non_integer_counterexample:
  "ReviewRequest.rating ex_review_half = Some (5 / 2)
   \<and> of_int \<lfloor>5 / 2 :: rat\<rfloor> \<noteq> (5 / 2 :: rat)
   \<and> httpMethod (post ex_review_half) = ''POST''
   \<and> truthy (ReviewRequest.orderId ex_review_half)
   \<and> truthy_num (ReviewRequest.rating ex_review_half)
   \<and> truthy (ReviewRequest.comment ex_review_half)
   \<and> statusCode (fst (review_handler ex_review_env (post ex_review_half) ex_files_delivered)) = 200
   \<and> map Review.rating
        (load_reviews (snd (review_handler ex_review_env (post ex_review_half) ex_files_delivered)))
       = [5 / 2]"
proof -
  have f: "ReviewRequest.orderId ex_review_half = Some ''ORD123''"
    "ReviewRequest.rating ex_review_half = Some (5 / 2)"
    "ReviewRequest.comment ex_review_half = Some ''  Great  ''"
    by (simp_all add: ex_review_half_def ex_review_request_def)
  have run: "review_handler ex_review_env (post ex_review_half) ex_files_delivered =
     (respond 200 (ReviewOk (make_review_id ex_review_env)
         (make_review ex_review_env ex_review_half
            (order_after ex_webhook_env ex_delivered pristine ex_order))),
      ex_files_delivered
        \<lparr>reviews_file := Some [make_review ex_review_env ex_review_half
            (order_after ex_webhook_env ex_delivered pristine ex_order)],
         orders_file := Some ((load_orders ex_files_delivered)
            (''ORD123'' \<mapsto> (order_after ex_webhook_env ex_delivered pristine ex_order)
               \<lparr>hasReview := Some True, reviewId := Some (make_review_id ex_review_env)\<rparr>))\<rparr>)"
    by (subst review_handler_found [where rd = ex_review_half and oid = "''ORD123''"
          and r = "5 / 2" and c = "''  Great  ''"
          and ord = "order_after ex_webhook_env ex_delivered pristine ex_order"])
       (simp_all add: post_def f stored_order_ex_files_delivered
          ex_delivered_order_eligible load_reviews_ex_files_delivered)
  have fl: "\<lfloor>5 / 2 :: rat\<rfloor> = 2"
    by (simp add: floor_eq_iff)
  have frac: "of_int \<lfloor>5 / 2 :: rat\<rfloor> \<noteq> (5 / 2 :: rat)"
    unfolding fl by simp
  have p: "httpMethod (post ex_review_half) = ''POST''"
    by (simp add: post_def)
  have t: "truthy (ReviewRequest.orderId ex_review_half)"
    "truthy_num (ReviewRequest.rating ex_review_half)"
    "truthy (ReviewRequest.comment ex_review_half)"
    by (simp_all add: f truthy_def truthy_num_def)
  have ok: "statusCode (fst (review_handler ex_review_env (post ex_review_half) ex_files_delivered))
      = 200"
    by (simp add: run respond_def)
  have st: "map Review.rating
        (load_reviews (snd (review_handler ex_review_env (post ex_review_half) ex_files_delivered)))
       = [5 / 2]"
    by (simp add: run load_reviews_def make_review_fields f)
  from f(2) frac p t ok st show ?thesis by blast
qed

end
